theory Spec2Isabelle
  imports Main "HOL-Library.List_Lexorder" "HOL-Library.Char_ord"
begin

section \<open>JavaScript values\<close>

text \<open>
  The values the generator works on are parsed JSON documents and the object literals the
  generator builds itself.  An object is an association list in insertion order; a key
  occurs at most once.  \<open>JUndefined\<close> is JavaScript's \<open>undefined\<close>: the value of a
  property that is absent, and the value that \<open>{ type: s.type }\<close> stores when \<open>s\<close> has no
  \<open>type\<close>.
\<close>

datatype json =
    JUndefined
  | JNull
  | JBool bool
  | JNum int
  | JStr string
  | JArr "json list"
  | JObj "(string \<times> json) list"

text \<open>Property read \<open>o[k]\<close> on an object: \<open>undefined\<close> when the key is absent.\<close>

fun fld :: "json \<Rightarrow> string \<Rightarrow> json" where
  "fld (JObj kvs) k = (case map_of kvs k of Some v \<Rightarrow> v | None \<Rightarrow> JUndefined)"
| "fld _ k = JUndefined"

text \<open>Property write \<open>o[k] = v\<close>: an existing key keeps its place, a new key goes last.\<close>

fun assign :: "(string \<times> json) list \<Rightarrow> string \<Rightarrow> json \<Rightarrow> (string \<times> json) list" where
  "assign [] k v = [(k, v)]"
| "assign ((k', v') # kvs) k v =
     (if k' = k then (k, v) # kvs else (k', v') # assign kvs k v)"

text \<open>\<open>Object.assign({}, s)\<close>: the own properties of \<open>s\<close>, none for \<open>undefined\<close>.\<close>

fun ownProperties :: "json \<Rightarrow> (string \<times> json) list" where
  "ownProperties (JObj kvs) = kvs"
| "ownProperties _ = []"

text \<open>JavaScript truthiness, as tested by \<open>if (x)\<close>, \<open>x && y\<close> and \<open>x || y\<close>.\<close>

fun truthy :: "json \<Rightarrow> bool" where
  "truthy JUndefined = False"
| "truthy JNull = False"
| "truthy (JBool b) = b"
| "truthy (JNum n) = (n \<noteq> 0)"
| "truthy (JStr s) = (s \<noteq> [])"
| "truthy (JArr xs) = True"
| "truthy (JObj kvs) = True"

section \<open>Schemas and their identifiers\<close>

text \<open>
  Class \<open>SchemaId\<close> is not part of the sources at hand: an identifier is kept as the
  arguments of its constructor, \<open>new SchemaId(inputId, parentIds)\<close>, and the method
  \<open>getAbsoluteId\<close> is a parameter \<open>absId\<close> of every function that calls it.
\<close>

datatype schema_id = SchemaId string "string list option"

datatype SchemaType = Draft04 | Draft07

text \<open>
  Interface \<open>Schema\<close> of \<open>schema.ts\<close>.  The type parameter is the representation of
  \<open>content\<close>.  Of \<open>rootSchema\<close>, the back reference to the enclosing schema, the code
  reads only the identifiers along the chain (\<open>getParentIds\<close>), nearest first; the
  field \<open>rootIds\<close> holds them.
\<close>

record 'c schema =
  stype :: SchemaType
  openApiVersion :: "nat option"
  sid :: schema_id
  content :: 'c
  rootIds :: "schema_id list"

datatype error =
    TypeError string
  | ResolutionError string
  | Error string

section \<open>OpenAPI v3 operation synthesis\<close>

text \<open>
  \<open>OpenAPIV3.ParameterObject\<close>, \<open>MediaTypeObject\<close>, \<open>RequestBodyObject\<close> and the part
  of \<open>OperationObject\<close> that \<open>resolveOpenAPIV3SchemaContentObject\<close> reads.  A position
  typed \<open>ReferenceObject | T\<close> is \<open>Ref r\<close> for \<open>{ $ref: r }\<close> and \<open>Obj x\<close> otherwise, which is
  the distinction \<open>checkOpenAPIV3RefereunceObject\<close> makes.
\<close>

datatype 'a or_ref = Ref string | Obj 'a

record parameter =
  name :: string
  location :: string
  required :: bool
  pschema :: "json option"

record media_type =
  mschema :: "json or_ref option"

record request_body =
  rcontent :: "(string \<times> media_type) list"

record operation =
  parameters :: "parameter or_ref list option"
  requestBody :: "request_body or_ref option"

text \<open>
  \<open>this.resolver.dereference(ref).content\<close>, by the kind of object the reference is read
  as; \<open>None\<close> when the reference is not registered (the resolver throws).
\<close>

record resolver =
  derefParameter :: "string \<Rightarrow> parameter option"
  derefRequestBody :: "string \<Rightarrow> request_body option"
  derefSchema :: "string \<Rightarrow> json option"

text \<open>
  \<open>resolveOpenAPIV3Object\<close>.  The method reads \<open>this.resolver\<close> only for a reference
  object.  \<open>work.parameters.map(this.resolveOpenAPIV3Object)\<close> passes the method
  unbound, so there \<open>this\<close> is \<open>undefined\<close> (\<open>None\<close>) and a referenced parameter raises
  a \<open>TypeError\<close>; the request body and its schemas go through a bound call.
\<close>

definition resolveOpenAPIV3Object ::
  "(string \<Rightarrow> 'a option) option \<Rightarrow> 'a or_ref \<Rightarrow> error + 'a" where
  "resolveOpenAPIV3Object this obj =
     (case obj of
        Obj x \<Rightarrow> Inr x
      | Ref r \<Rightarrow>
          (case this of
             None \<Rightarrow> Inl (TypeError ''Cannot read property resolver of undefined'')
           | Some dereference \<Rightarrow>
               (case dereference r of
                  None \<Rightarrow> Inl (ResolutionError r)
                | Some x \<Rightarrow> Inr x)))"

fun mapE :: "('a \<Rightarrow> error + 'b) \<Rightarrow> 'a list \<Rightarrow> error + 'b list" where
  "mapE f [] = Inr []"
| "mapE f (x # xs) =
     (case f x of
        Inl e \<Rightarrow> Inl e
      | Inr y \<Rightarrow> (case mapE f xs of Inl e \<Rightarrow> Inl e | Inr ys \<Rightarrow> Inr (y # ys)))"

text \<open>
  The inner function \<open>normalizeSchema\<close>: copy the parameter's schema, follow a
  reference, and coerce an \<open>object\<close> or \<open>array\<close> type to \<open>string\<close>.  The branch that
  returns \<open>{ type: 'string' }\<close> is taken when the dereferenced content is \<open>undefined\<close>.
\<close>

definition normalizeSchema :: "resolver \<Rightarrow> json option \<Rightarrow> error + json" where
  "normalizeSchema res s0 =
     (let s = JObj (ownProperties (case s0 of None \<Rightarrow> JUndefined | Some x \<Rightarrow> x));
          r = (case fld s ''$ref'' of
                 JStr ref \<Rightarrow>
                   (case derefSchema res ref of
                      None \<Rightarrow> Inl (ResolutionError ref)
                    | Some c \<Rightarrow> Inr c)
               | _ \<Rightarrow> Inr s)
      in case r of
           Inl e \<Rightarrow> Inl e
         | Inr s' \<Rightarrow>
             (if s' = JNull then Inl (TypeError ''Cannot read property type of null'')
              else if s' \<noteq> JUndefined
              then Inr (JObj (assign (ownProperties s') ''type''
                     (if fld s' ''type'' \<noteq> JStr ''object'' \<and> fld s' ''type'' \<noteq> JStr ''array''
                      then fld s' ''type'' else JStr ''string'')))
              else Inr (JObj [(''type'', JStr ''string'')])))"

text \<open>
  The callback of \<open>params.reduce\<close> in \<open>normalizeParameter\<close>.  \<open>prev\<close> is copied
  shallowly, so \<open>next.properties\<close> is the one object created with the initial value and
  the write to it is kept from step to step.
\<close>

definition reduceStep :: "resolver \<Rightarrow> json \<Rightarrow> parameter \<Rightarrow> error + json" where
  "reduceStep res prev target =
     (let next = ownProperties prev
      in if truthy (fld (JObj next) ''properties'')
         then (case normalizeSchema res (pschema target) of
                 Inl e \<Rightarrow> Inl e
               | Inr s \<Rightarrow>
                   (let next1 = assign next ''properties''
                          (JObj (assign (ownProperties (fld (JObj next) ''properties''))
                                   (name target) s))
                    in if required target \<and> truthy (fld (JObj next1) ''required'')
                       then Inr (JObj (assign next1 ''required''
                              (case fld (JObj next1) ''required'' of
                                 JArr xs \<Rightarrow> JArr (xs @ [JStr (name target)])
                               | v \<Rightarrow> v)))
                       else Inr (JObj next1)))
         else Inr (JObj next))"

fun reduce :: "('b \<Rightarrow> 'a \<Rightarrow> error + 'b) \<Rightarrow> 'a list \<Rightarrow> 'b \<Rightarrow> error + 'b" where
  "reduce f [] acc = Inr acc"
| "reduce f (x # xs) acc =
     (case f acc x of Inl e \<Rightarrow> Inl e | Inr acc' \<Rightarrow> reduce f xs acc')"

text \<open>
  The content of a synthesized schema is either an object of its own or the one content
  object of \<open>requestSchema\<close>: \<open>Object.assign({}, requestSchema, { id: ... })\<close> copies the
  reference, so every request wrapper shares that object with \<open>requestSchema\<close>.
\<close>

datatype content_ref = Own json | RequestContent

datatype resolver_call = AddSchema "content_ref schema" | AddReference schema_id

text \<open>
  The state of one run of \<open>resolveOpenAPIV3SchemaContentObject\<close>: the content object of
  \<open>requestSchema\<close>, the array \<open>results\<close>, and the calls made on the resolver.
\<close>

record synth =
  requestContent :: json
  results :: "content_ref schema list"
  resolverCalls :: "resolver_call list"

text \<open>\<open>Object.assign({}, s, { id: i, content: c })\<close>.\<close>

definition withId :: "'c schema \<Rightarrow> schema_id \<Rightarrow> 'd \<Rightarrow> 'd schema" where
  "withId s i c =
     \<lparr>stype = stype s, openApiVersion = openApiVersion s, sid = i, content = c,
      rootIds = rootIds s\<rparr>"

text \<open>
  The inner function \<open>normalizeParameter\<close>.  \<open>request\<close> is \<open>requestSchema\<close> and
  \<open>r\<close> is \<open>results\<close>, both held in the state.
\<close>

definition normalizeParameter ::
  "(schema_id \<Rightarrow> string) \<Rightarrow> resolver \<Rightarrow> 'c schema \<Rightarrow> string \<Rightarrow> parameter list \<Rightarrow> string
     \<Rightarrow> synth \<Rightarrow> error + synth" where
  "normalizeParameter absId res schema baseId params paramName st =
     (let filterdParams = filter (\<lambda>parameter. location parameter = paramName) params
      in if length filterdParams \<noteq> 0
         then (case reduce (reduceStep res) params
                      (JObj [(''type'', JStr ''object''), (''properties'', JObj []),
                             (''required'', JArr [])]) of
                 Inl e \<Rightarrow> Inl e
               | Inr parameterObject \<Rightarrow>
                   (let propertyName = paramName @ ''Param'';
                        parameterSchema =
                          withId schema
                            (SchemaId (baseId @ ''/'' @ (paramName @ ''Parameter'')) (Some []))
                            (Own parameterObject);
                        rc = requestContent st;
                        rc2 =
                          (if truthy (fld rc ''properties'')
                           then (let rc1 = JObj (assign (ownProperties rc) ''properties''
                                             (JObj (assign (ownProperties (fld rc ''properties''))
                                                propertyName
                                                (JObj [(''$ref'', JStr (absId (sid parameterSchema)))]))))
                                 in if truthy (fld rc1 ''required'')
                                       \<and> truthy (fld parameterObject ''required'')
                                    then JObj (assign (ownProperties rc1) ''required''
                                           (case (fld parameterObject ''required'', fld rc1 ''required'') of
                                              (JArr preq, JArr rreq) \<Rightarrow>
                                                (if length preq > 0
                                                 then JArr (rreq @ [JStr propertyName])
                                                 else JArr rreq)
                                            | (_, v) \<Rightarrow> v))
                                    else rc1)
                           else rc)
                    in Inr (st\<lparr>requestContent := rc2,
                               results := results st @ [parameterSchema],
                               resolverCalls := resolverCalls st
                                 @ [AddSchema parameterSchema, AddReference (sid parameterSchema)]\<rparr>)))
         else Inr st)"

text \<open>\<open>DtsGenerator.mediaTypeToTypeNamePrefix\<close>.\<close>

definition mediaTypeToTypeNamePrefix :: "string \<Rightarrow> string" where
  "mediaTypeToTypeNamePrefix mediaType =
     (if mediaType = ''application/json'' then ''json''
      else if mediaType = ''application/xml'' then ''xml''
      else if mediaType = ''application/x-www-form-urlencoded'' then ''form''
      else if mediaType = ''text/plain'' then ''text''
      else mediaType)"

text \<open>
  The body of the loop \<open>for (const mediaType of mediaKeys)\<close>.  \<open>requestSchema\<close> is
  the wrapper built at the start of the run; \<open>rs\<close> copies it with a new id, and the
  writes through \<open>rs.content\<close> go to the shared content object in the state.
\<close>

definition bodyStep ::
  "(schema_id \<Rightarrow> string) \<Rightarrow> resolver \<Rightarrow> content_ref schema \<Rightarrow> string \<Rightarrow> request_body \<Rightarrow> bool
     \<Rightarrow> synth \<Rightarrow> string \<Rightarrow> error + synth" where
  "bodyStep absId res requestSchema baseId body singleMedia st mediaType =
     (case map_of (rcontent body) mediaType of
        None \<Rightarrow> Inl (TypeError ''Cannot read property schema of undefined'')
      | Some bodyContent \<Rightarrow>
          (case mschema bodyContent of
             None \<Rightarrow> Inr st
           | Some sch \<Rightarrow>
               (case resolveOpenAPIV3Object (Some (derefSchema res)) sch of
                  Inl e \<Rightarrow> Inl e
                | Inr bodyContentSchema \<Rightarrow>
                    (let bodyTypeName = mediaTypeToTypeNamePrefix mediaType;
                         bodySchema =
                           withId requestSchema
                             (SchemaId (baseId @ ''/'' @ (if singleMedia then [] else bodyTypeName)
                                          @ ''RequestBody'') None)
                             (Own bodyContentSchema);
                         rs = withId requestSchema
                                (SchemaId (baseId @ ''/''
                                   @ (if singleMedia then [] else bodyTypeName @ ''Request'')) None)
                                RequestContent;
                         rc = requestContent st;
                         has = truthy (fld rc ''properties'');
                         rc2 =
                           (if has
                            then (let rc1 = JObj (assign (ownProperties rc) ''properties''
                                              (JObj (assign (ownProperties (fld rc ''properties''))
                                                 ''body''
                                                 (JObj [(''$ref'', JStr (absId (sid bodySchema)))]))))
                                  in if truthy (fld bodyContentSchema ''required'')
                                        \<and> (case fld bodyContentSchema ''required'' of
                                               JArr xs \<Rightarrow> length xs > 0
                                             | JStr x \<Rightarrow> length x > 0
                                             | _ \<Rightarrow> False)
                                        \<and> truthy (fld rc1 ''required'')
                                     then JObj (assign (ownProperties rc1) ''required''
                                            (case fld rc1 ''required'' of
                                               JArr rreq \<Rightarrow> JArr (rreq @ [JStr ''body''])
                                             | v \<Rightarrow> v))
                                     else rc1)
                            else rc)
                     in Inr (st\<lparr>requestContent := rc2,
                                results := results st @ [bodySchema, rs],
                                resolverCalls := resolverCalls st @ [AddSchema bodySchema]
                                  @ (if has then [AddReference (sid bodySchema)] else [])\<rparr>)))))"

text \<open>
  \<open>resolveOpenAPIV3SchemaContentObject\<close>.  The result is the final state: the array
  \<open>results\<close> that the method returns, and the content object that the request wrappers
  in it share.  \<open>Object.keys(requestBody.content)\<close> lists the media types in insertion
  order (no media type is a canonical array index).
\<close>

definition resolveOpenAPIV3SchemaContentObject ::
  "(schema_id \<Rightarrow> string) \<Rightarrow> resolver \<Rightarrow> operation schema \<Rightarrow> error + synth" where
  "resolveOpenAPIV3SchemaContentObject absId res schema =
     (let work = content schema;
          baseId = absId (sid schema);
          requestSchema = withId schema (SchemaId (baseId @ ''/'' @ ''request'') (Some []))
                            RequestContent;
          st0 = \<lparr>requestContent =
                    JObj [(''properties'', JObj []), (''required'', JArr []),
                          (''type'', JStr ''object'')],
                  results = [], resolverCalls = []\<rparr>;
          st1 =
            (case parameters work of
               None \<Rightarrow> Inr st0
             | Some ps \<Rightarrow>
                 (case mapE (resolveOpenAPIV3Object None) ps of
                    Inl e \<Rightarrow> Inl e
                  | Inr params \<Rightarrow>
                      reduce (\<lambda>st paramName.
                                normalizeParameter absId res schema baseId params paramName st)
                        [''path'', ''query'', ''header'', ''cookie''] st0))
      in case st1 of
           Inl e \<Rightarrow> Inl e
         | Inr st \<Rightarrow>
             (case requestBody work of
                Some rb \<Rightarrow>
                  (case resolveOpenAPIV3Object (Some (derefRequestBody res)) rb of
                     Inl e \<Rightarrow> Inl e
                   | Inr body \<Rightarrow>
                       (let mediaKeys = map fst (rcontent body);
                            singleMedia = (length mediaKeys = 1)
                        in reduce (bodyStep absId res requestSchema baseId body singleMedia)
                             mediaKeys st))
              | None \<Rightarrow>
                  (if truthy (fld (requestContent st) ''properties'')
                      \<and> length (ownProperties (fld (requestContent st) ''properties'')) > 0
                   then Inr (st\<lparr>results := results st @ [requestSchema]\<rparr>)
                   else Inr st)))"

text \<open>What a reader of the returned array finds as the content of a schema in it.\<close>

definition contentOf :: "synth \<Rightarrow> content_ref schema \<Rightarrow> json" where
  "contentOf st s = (case content s of Own c \<Rightarrow> c | RequestContent \<Rightarrow> requestContent st)"

section \<open>Array types: \<open>generateArrayTypeProperty\<close>\<close>

text \<open>
  Class \<open>SchemaConvertor\<close> is not part of the sources at hand, so the output of the
  emitter is kept as the sequence of calls it makes on \<open>this.convertor\<close>.  For an array
  schema these are \<open>outputRawValue(value)\<close> and
  \<open>outputStringTypeName(schema, name, terminate, outputOptional)\<close>, the last argument
  being \<open>None\<close> where the call leaves it out.  \<open>ItemType i\<close> stands for what the emitter
  writes for the type of the \<open>i\<close>-th item schema, \<open>normalizeContent(schema, '/items/' + i)\<close>:
  \<open>generateTypeProperty(type, false)\<close> when its id is empty and
  \<open>outputTypeIdName(type, this.currentSchema, false)\<close> otherwise.  \<open>ItemsType\<close> is the same
  for \<open>items\<close> given as one schema.
\<close>

datatype array_call =
    RawValue string
  | StringTypeName string bool "bool option"
  | ItemType nat
  | ItemsType

text \<open>
  What \<open>generateArrayTypeProperty\<close> reads of the schema: \<open>items\<close> (absent, one schema,
  or a list of which only the length matters here) and \<open>minItems\<close>, an integer or absent.
\<close>

datatype items = NoItems | OneSchema | SchemaList nat

text \<open>The inner loop \<open>for (let i = 0; i < unionIndex; i++)\<close>, started at \<open>i\<close>.\<close>

function tupleSlots :: "int \<Rightarrow> int \<Rightarrow> int \<Rightarrow> int \<Rightarrow> array_call list" where
  "tupleSlots len effectiveMaxItems unionIndex i =
     (if i < unionIndex
      then (if i > 0 then [RawValue '', ''] else [])
           @ (if i < len then [ItemType (nat i)]
              else if i < effectiveMaxItems - 1
                   then [StringTypeName ''Object'' False (Some False)]
                   else [StringTypeName ''any'' False (Some False)])
           @ tupleSlots len effectiveMaxItems unionIndex (i + 1)
      else [])"
  by pat_completeness auto
termination
  by (relation "measure (\<lambda>(len, effectiveMaxItems, unionIndex, i). nat (unionIndex - i))") auto

declare tupleSlots.simps [simp del]

text \<open>The outer loop \<open>for (let unionIndex = ...; unionIndex <= effectiveMaxItems; unionIndex++)\<close>.\<close>

function tupleUnion :: "int \<Rightarrow> int \<Rightarrow> int \<Rightarrow> array_call list" where
  "tupleUnion len effectiveMaxItems unionIndex =
     (if unionIndex \<le> effectiveMaxItems
      then [RawValue ''['']
           @ tupleSlots len effectiveMaxItems unionIndex 0
           @ [RawValue '']'']
           @ (if unionIndex < effectiveMaxItems then [RawValue '' | ''] else [])
           @ tupleUnion len effectiveMaxItems (unionIndex + 1)
      else [])"
  by pat_completeness auto
termination
  by (relation "measure (\<lambda>(len, effectiveMaxItems, unionIndex). nat (effectiveMaxItems + 1 - unionIndex))")
     auto

declare tupleUnion.simps [simp del]

text \<open>
  \<open>generateArrayTypeProperty(schema, terminate)\<close>, as the calls it makes in order.
  \<open>minItems || 0\<close> is \<open>0\<close> for an absent \<open>minItems\<close> and for \<open>0\<close>.
\<close>

definition generateArrayTypeProperty :: "items \<Rightarrow> int option \<Rightarrow> bool \<Rightarrow> array_call list" where
  "generateArrayTypeProperty its minItems terminate =
     (case its of
        NoItems \<Rightarrow> [StringTypeName ''any[]'' terminate None]
      | OneSchema \<Rightarrow> [ItemsType, StringTypeName ''[]'' terminate None]
      | SchemaList len \<Rightarrow>
          (if len = 0 \<and> minItems = None
           then [StringTypeName ''any[]'' terminate None]
           else (let effectiveMaxItems =
                       1 + max (case minItems of None \<Rightarrow> 0 | Some m \<Rightarrow> m) (int len)
                 in tupleUnion (int len) effectiveMaxItems
                      (case minItems of None \<Rightarrow> 1 | Some m \<Rightarrow> m)
                    @ [StringTypeName [] terminate None])))"

text \<open>
  The same output in the words of the specification: for each length \<open>n\<close> from
  \<open>minItems\<close> (or \<open>1\<close>) up to \<open>effectiveMax\<close>, one tuple of \<open>n\<close> slots, the tuples
  joined by the union separator; slot \<open>i\<close> is the \<open>i\<close>-th item's type below
  \<open>items.length\<close>, the open type \<open>any\<close> at \<open>effectiveMax - 1\<close>, and the generic object
  type anywhere else.
\<close>

fun intersperse :: "'a \<Rightarrow> 'a list \<Rightarrow> 'a list" where
  "intersperse s [] = []"
| "intersperse s [x] = [x]"
| "intersperse s (x # y # ys) = x # s # intersperse s (y # ys)"

definition spec_slot :: "int \<Rightarrow> int \<Rightarrow> int \<Rightarrow> array_call" where
  "spec_slot len effectiveMax i =
     (if i < len then ItemType (nat i)
      else if i = effectiveMax - 1 then StringTypeName ''any'' False (Some False)
      else StringTypeName ''Object'' False (Some False))"

definition spec_tuple :: "int \<Rightarrow> int \<Rightarrow> int \<Rightarrow> array_call list" where
  "spec_tuple len effectiveMax n =
     [RawValue ''['']
     @ intersperse (RawValue '', '') (map (spec_slot len effectiveMax) [0..n - 1])
     @ [RawValue '']'']"

definition spec_tuple_union :: "nat \<Rightarrow> int option \<Rightarrow> bool \<Rightarrow> array_call list" where
  "spec_tuple_union len minItems terminate =
     (let effectiveMax = 1 + max (case minItems of None \<Rightarrow> 0 | Some m \<Rightarrow> m) (int len)
      in concat (intersperse [RawValue '' | '']
           (map (spec_tuple (int len) effectiveMax)
              [(case minItems of None \<Rightarrow> 1 | Some m \<Rightarrow> m)..effectiveMax]))
         @ [StringTypeName [] terminate None])"

section \<open>The namespace tree and its walk\<close>

text \<open>
  The nested mapping that \<open>buildSchemaMergedMap\<close> returns: an object whose string keys
  are path segments and whose values are objects of the same kind; a value may carry a
  schema under the symbol \<open>typeMarker\<close>.  \<open>Object.keys\<close> lists the string keys only, in
  insertion order; a key occurs once.
\<close>

datatype 's node = Node (typeMarker: "'s option") (entries: "(string \<times> 's node) list")

text \<open>
  The calls of \<open>walk\<close>, in order: \<open>this.walkSchema(schema)\<close>,
  \<open>delete value[typeMarker]\<close>, \<open>this.convertor.startNest(key)\<close> and
  \<open>this.convertor.endNest()\<close>.  None of them changes a key or an entry of the tree, so
  the sequence of calls is determined by the tree alone; an exception in \<open>walkSchema\<close>
  cuts the sequence at that call.
\<close>

datatype 's walk_call = WalkSchema 's | DeleteTypeMarker | StartNest string | EndNest

text \<open>
  \<open>walk(map)\<close>.  \<open>Object.keys(map).sort()\<close> sorts the keys as strings, by code unit;
  \<open>sort\<close> is the same order on strings of bytes.
\<close>

function walk :: "(string \<times> 's node) list \<Rightarrow> 's walk_call list" where
  "walk m =
     concat (map (\<lambda>key.
        (case map_of m key of
           None \<Rightarrow> []
         | Some value \<Rightarrow>
             (case typeMarker value of
                Some schema \<Rightarrow> [WalkSchema schema, DeleteTypeMarker]
              | None \<Rightarrow> [])
             @ (if length (map fst (entries value)) > 0
                then [StartNest key] @ walk (entries value) @ [EndNest]
                else [])))
       (sort (remdups (map fst m))))"
  by pat_completeness auto
termination
proof (relation "measure (size_list (size_prod (\<lambda>_. 0) size))")
  show "wf (measure (size_list (size_prod (\<lambda>_. 0) size)))" by simp
next
  fix m :: "(string \<times> 's node) list" and key :: string and v :: "'s node"
  assume "map_of m key = Some v"
  then have "size_list (size_prod (\<lambda>_. 0) size) (entries v)
               < size_list (size_prod (\<lambda>_. 0) size) m"
  proof (induction m)
    case Nil
    then show ?case by simp
  next
    case (Cons e m)
    then show ?case by (cases e; cases v) (auto split: if_splits)
  qed
  then show "(entries v, m) \<in> measure (size_list (size_prod (\<lambda>_. 0) size))" by simp
qed

declare walk.simps [simp del]

text \<open>
  The tree with the entries of every level in ascending key order, and the plain
  traversal of a tree in the order its entries are listed.  Both are used to state what
  the walk does; neither is part of the program.
\<close>

fun canonical :: "'s node \<Rightarrow> 's node" where
  "canonical (Node mk es) = Node mk (sort_key fst (map (\<lambda>(k, v). (k, canonical v)) es))"

fun traverse :: "string \<Rightarrow> 's node \<Rightarrow> 's walk_call list" where
  "traverse key (Node mk es) =
     (case mk of Some schema \<Rightarrow> [WalkSchema schema, DeleteTypeMarker] | None \<Rightarrow> [])
     @ (if es \<noteq> [] then [StartNest key] @ concat (map (\<lambda>(k, v). traverse k v) es) @ [EndNest]
        else [])"

text \<open>The keys of every level are strictly ascending (sorted, and each key once).\<close>

fun ascending :: "'s node \<Rightarrow> bool" where
  "ascending (Node mk es) =
     (sorted_wrt (<) (map fst es) \<and> list_all (\<lambda>(k, v). ascending v) es)"

text \<open>The invariant of a JavaScript object: at every level a key occurs once.\<close>

fun distinct_keys :: "'s node \<Rightarrow> bool" where
  "distinct_keys (Node mk es) =
     (distinct (map fst es) \<and> list_all (\<lambda>(k, v). distinct_keys v) es)"

section \<open>Sub-schema discovery over the paths of an OpenAPI v3 document\<close>

text \<open>
  \<open>searchAllSubSchema\<close> reports what it finds through the callbacks \<open>onFoundSchema\<close>
  and \<open>onFoundReference\<close>; a run is the sequence of these calls.  The content of a found
  operation is the object \<open>{ ...op, namespaces: [...], [openAPIV3Operation]: null }\<close>; the
  symbol key, which is no string key, is the constructor \<open>OperationContent\<close>.
\<close>

datatype found_content = PlainContent json | OperationContent json

datatype found = FoundSchema "found_content schema" | FoundReference schema_id

definition getIdPropertyName :: "SchemaType \<Rightarrow> string" where
  "getIdPropertyName t = (case t of Draft04 \<Rightarrow> ''id'' | Draft07 \<Rightarrow> ''$id'')"

definition getId :: "SchemaType \<Rightarrow> json \<Rightarrow> json" where
  "getId t c = fld c (getIdPropertyName t)"

text \<open>
  \<open>findId\<close>: a non-empty string id registers the sub-schema and extends \<open>parentIds\<close>.
  \<open>schema\<close> is the schema that \<open>searchAllSubSchema\<close> was called with.
\<close>

definition findId ::
  "(schema_id \<Rightarrow> string) \<Rightarrow> 'c schema \<Rightarrow> found_content \<Rightarrow> json \<Rightarrow> string list
     \<Rightarrow> found list \<times> string list" where
  "findId absId schema s i parentIds =
     (case i of
        JStr ident \<Rightarrow>
          (if ident \<noteq> []
           then (let schemaId = SchemaId ident (Some parentIds);
                     subSchema = \<lparr>stype = stype schema, openApiVersion = None, sid = schemaId,
                                  content = s, rootIds = sid schema # rootIds schema\<rparr>
                 in ([FoundSchema subSchema], parentIds @ [absId schemaId]))
           else ([], parentIds))
      | _ \<Rightarrow> ([], parentIds))"

text \<open>
  \<open>findRef\<close>: when \<open>refObject.$ref\<close> is a string it is rewritten in place to the
  absolute id and reported.  The result holds the calls and \<open>refObject\<close> afterwards.
  Reading \<open>$ref\<close> of \<open>null\<close> or \<open>undefined\<close> raises a \<open>TypeError\<close>.
\<close>

definition findRef ::
  "(schema_id \<Rightarrow> string) \<Rightarrow> json \<Rightarrow> string list \<Rightarrow> error + (found list \<times> json)" where
  "findRef absId refObject parentIds =
     (case refObject of
        JNull \<Rightarrow> Inl (TypeError ''Cannot read property $ref of null'')
      | JUndefined \<Rightarrow> Inl (TypeError ''Cannot read property $ref of undefined'')
      | JObj kvs \<Rightarrow>
          (case fld refObject ''$ref'' of
             JStr r \<Rightarrow>
               (let schemaId = SchemaId r (Some parentIds)
                in Inr ([FoundReference schemaId],
                        JObj (assign kvs ''$ref'' (JStr (absId schemaId)))))
           | _ \<Rightarrow> Inr ([], refObject))
      | _ \<Rightarrow> Inr ([], refObject))"

text \<open>\<open>path.split('/')\<close>.\<close>

fun splitOn :: "char \<Rightarrow> string \<Rightarrow> string list" where
  "splitOn c [] = [[]]"
| "splitOn c (x # xs) =
     (if x = c then [] # splitOn c xs
      else (case splitOn c xs of [] \<Rightarrow> [[x]] | y # ys \<Rightarrow> (x # y) # ys))"

text \<open>
  \<open>s.replace(/^$/, '$$').replace(/^{(.*)}$/, '$$1')\<close>, the replacement strings as the
  string literals of the source denote them.  In a replacement \<open>$$\<close> inserts \<open>$\<close>, so the
  first gives \<open>$\<close> for the empty segment; the second pattern matches a segment in
  braces whose inside has no line terminator (line feed and carriage return among bytes),
  and its replacement \<open>$$\<close> followed by \<open>1\<close> gives the two characters \<open>$1\<close>.
\<close>

definition segmentName :: "string \<Rightarrow> string" where
  "segmentName s =
     (let s1 = (if s = [] then ''$'' else s)
      in if length s1 \<ge> 2 \<and> hd s1 = CHR ''{'' \<and> last s1 = CHR ''}''
            \<and> CHR 0x0A \<notin> set (butlast (tl s1)) \<and> CHR 0x0D \<notin> set (butlast (tl s1))
         then ''$1'' else s1)"

text \<open>
  \<open>walkOpenAPIV3Operation\<close>.  The result holds the callbacks made and the operation
  object afterwards.  The argument \<open>paths\<close> is not used by the function.
\<close>

definition walkOpenAPIV3Operation ::
  "(schema_id \<Rightarrow> string) \<Rightarrow> 'c schema \<Rightarrow> json \<Rightarrow> string \<Rightarrow> string \<Rightarrow> string list \<Rightarrow> string list
     \<Rightarrow> error + (found list \<times> json)" where
  "walkOpenAPIV3Operation absId schema op method path paths parentIds =
     (case op of
        JObj kvs \<Rightarrow>
          (let operation = OperationContent (JObj (assign kvs ''namespaces''
                             (JArr (map JStr ([''$''] @ map segmentName (splitOn CHR ''/'' path)
                                                @ [method])))));
               i = getId (stype schema)
                     (case operation of OperationContent c \<Rightarrow> c | PlainContent c \<Rightarrow> c);
               (found1, parentIds1) = findId absId schema operation i parentIds
           in if ''$ref'' \<in> set (map fst kvs)
              then (case findRef absId (fld op ''$ref'') parentIds1 of
                      Inl e \<Rightarrow> Inl e
                    | Inr (found2, field) \<Rightarrow>
                        Inr (found1 @ found2, JObj (assign kvs ''$ref'' field)))
              else Inr (found1, op))
      | _ \<Rightarrow> Inr ([], op))"

text \<open>
  The inner loop of \<open>walkOpenAPIV3Paths\<close> over the array
  \<open>[['get', pathItem.get], ['post', pathItem.post], ...]\<close>: the six operations are read
  from the path item first and walked in turn.  An operation that is an object is changed
  in place, which the model writes back under its method.
\<close>

definition methods :: "string list" where
  "methods = [''get'', ''post'', ''put'', ''patch'', ''delete'', ''head'']"

fun walkOperations ::
  "(schema_id \<Rightarrow> string) \<Rightarrow> 'c schema \<Rightarrow> string \<Rightarrow> string list \<Rightarrow> string list
     \<Rightarrow> (string \<times> json) list \<Rightarrow> json \<Rightarrow> error + (found list \<times> json)" where
  "walkOperations absId schema path paths parentIds [] pathItem = Inr ([], pathItem)"
| "walkOperations absId schema path paths parentIds ((method, op) # operations) pathItem =
     (case walkOpenAPIV3Operation absId schema op method path (paths @ [path, method]) parentIds of
        Inl e \<Rightarrow> Inl e
      | Inr (found1, op1) \<Rightarrow>
          (case walkOperations absId schema path paths parentIds operations
                  (case op of
                     JObj kvs \<Rightarrow> JObj (assign (ownProperties pathItem) method op1)
                   | _ \<Rightarrow> pathItem) of
             Inl e \<Rightarrow> Inl e
           | Inr (found2, pathItem2) \<Rightarrow> Inr (found1 @ found2, pathItem2)))"

text \<open>
  The outer loop \<open>for (const path of Object.keys(pathObject))\<close>, over the keys that are
  left, and \<open>walkOpenAPIV3Paths\<close> itself.  The result holds the callbacks made and the
  path object afterwards.
\<close>

fun walkPathKeys ::
  "(schema_id \<Rightarrow> string) \<Rightarrow> 'c schema \<Rightarrow> string list \<Rightarrow> string list \<Rightarrow> string list
     \<Rightarrow> (string \<times> json) list \<Rightarrow> error + (found list \<times> (string \<times> json) list)" where
  "walkPathKeys absId schema paths parentIds [] pathObject = Inr ([], pathObject)"
| "walkPathKeys absId schema paths parentIds (path # keys) pathObject =
     (let pathItem = fld (JObj pathObject) path
      in if pathItem = JNull \<or> pathItem = JUndefined
         then Inl (TypeError ''Cannot read property get of null'')
         else (case walkOperations absId schema path paths parentIds
                      (map (\<lambda>method. (method, fld pathItem method)) methods) pathItem of
                 Inl e \<Rightarrow> Inl e
               | Inr (found1, pathItem1) \<Rightarrow>
                   (case walkPathKeys absId schema paths parentIds keys
                           (assign pathObject path pathItem1) of
                      Inl e \<Rightarrow> Inl e
                    | Inr (found2, pathObject2) \<Rightarrow> Inr (found1 @ found2, pathObject2))))"

definition walkOpenAPIV3Paths ::
  "(schema_id \<Rightarrow> string) \<Rightarrow> 'c schema \<Rightarrow> json \<Rightarrow> string list \<Rightarrow> string list
     \<Rightarrow> error + (found list \<times> json)" where
  "walkOpenAPIV3Paths absId schema pathObject paths parentIds =
     (case pathObject of
        JObj kvs \<Rightarrow>
          (case walkPathKeys absId schema paths parentIds (map fst kvs) kvs of
             Inl e \<Rightarrow> Inl e
           | Inr (found1, kvs1) \<Rightarrow> Inr (found1, JObj kvs1))
      | _ \<Rightarrow> Inr ([], pathObject))"

text \<open>
  A path item without the entries under any key that is not one of the six methods, and
  a path object with every path item so reduced.  Used to state what the walk depends on.
\<close>

definition onlyMethods :: "json \<Rightarrow> json" where
  "onlyMethods pathItem =
     (case pathItem of
        JObj kvs \<Rightarrow> JObj (filter (\<lambda>(k, v). k \<in> set methods) kvs)
      | _ \<Rightarrow> pathItem)"

definition onlyMethodsOfPaths :: "json \<Rightarrow> json" where
  "onlyMethodsOfPaths pathObject =
     (case pathObject of
        JObj kvs \<Rightarrow> JObj (map (\<lambda>(path, pathItem). (path, onlyMethods pathItem)) kvs)
      | _ \<Rightarrow> pathObject)"

section \<open>The object store\<close>

text \<open>
  \<open>normalizeContent\<close> and the emitter change schema objects in place, and a schema
  object can be reached both through the document it is part of and through the
  resolver's registry.  So objects live in a store: a value is a primitive, an array of
  values, or the address of an object; an object is its list of properties in insertion
  order.  No array is ever updated in place by the code modelled here, so arrays are
  values.  \<open>nextFree\<close> is the next free address.
\<close>

type_synonym addr = nat

datatype val =
    VUndefined
  | VNull
  | VBool bool
  | VNum int
  | VStr string
  | VArr "val list"
  | VRef addr

type_synonym object = "(string \<times> val) list"

record store =
  cells :: "addr \<Rightarrow> object"
  nextFree :: addr

definition alloc :: "object \<Rightarrow> store \<Rightarrow> val \<times> store" where
  "alloc ob st = (VRef (nextFree st), st\<lparr>cells := (cells st)(nextFree st := ob), nextFree := Suc (nextFree st)\<rparr>)"

text \<open>Property read \<open>v[k]\<close>, \<open>undefined\<close> when \<open>v\<close> is no object or has no such key.\<close>

definition getProp :: "store \<Rightarrow> val \<Rightarrow> string \<Rightarrow> val" where
  "getProp st v k =
     (case v of
        VRef a \<Rightarrow> (case map_of (cells st a) k of Some x \<Rightarrow> x | None \<Rightarrow> VUndefined)
      | _ \<Rightarrow> VUndefined)"

text \<open>\<open>k in v\<close> for an object \<open>v\<close>.\<close>

definition hasKey :: "store \<Rightarrow> val \<Rightarrow> string \<Rightarrow> bool" where
  "hasKey st v k = (case v of VRef a \<Rightarrow> k \<in> set (map fst (cells st a)) | _ \<Rightarrow> False)"

text \<open>Property write \<open>o[k] = x\<close> and \<open>delete o[k]\<close> on the object at an address.\<close>

fun setKey :: "object \<Rightarrow> string \<Rightarrow> val \<Rightarrow> object" where
  "setKey [] k x = [(k, x)]"
| "setKey ((k', x') # ob) k x = (if k' = k then (k, x) # ob else (k', x') # setKey ob k x)"

definition setProp :: "addr \<Rightarrow> string \<Rightarrow> val \<Rightarrow> store \<Rightarrow> store" where
  "setProp a k x st = st\<lparr>cells := (cells st)(a := setKey (cells st a) k x)\<rparr>"

definition deleteProp :: "addr \<Rightarrow> string \<Rightarrow> store \<Rightarrow> store" where
  "deleteProp a k st = st\<lparr>cells := (cells st)(a := filter (\<lambda>(k', x). k' \<noteq> k) (cells st a))\<rparr>"

fun truthyV :: "val \<Rightarrow> bool" where
  "truthyV VUndefined = False"
| "truthyV VNull = False"
| "truthyV (VBool b) = b"
| "truthyV (VNum n) = (n \<noteq> 0)"
| "truthyV (VStr s) = (s \<noteq> [])"
| "truthyV (VArr xs) = True"
| "truthyV (VRef a) = True"

text \<open>
  Reading a value back as a JSON tree, to the given depth of objects (a cell out of
  depth reads as \<open>undefined\<close>).  Used to state results; not part of the program.
\<close>

fun view :: "nat \<Rightarrow> store \<Rightarrow> val \<Rightarrow> json" where
  "view d st VUndefined = JUndefined"
| "view d st VNull = JNull"
| "view d st (VBool b) = JBool b"
| "view d st (VNum n) = JNum n"
| "view d st (VStr s) = JStr s"
| "view d st (VArr xs) = JArr (map (view d st) xs)"
| "view 0 st (VRef a) = JUndefined"
| "view (Suc d) st (VRef a) = JObj (map (\<lambda>(k, x). (k, view d st x)) (cells st a))"

text \<open>
  Placing a JSON tree in the store: every object gets a cell, children first.  Used to
  write down inputs; not part of the program.
\<close>

fun load :: "json \<Rightarrow> store \<Rightarrow> val \<times> store"
  and loadList :: "json list \<Rightarrow> store \<Rightarrow> val list \<times> store"
  and loadFields :: "(string \<times> json) list \<Rightarrow> store \<Rightarrow> object \<times> store" where
  "load JUndefined st = (VUndefined, st)"
| "load JNull st = (VNull, st)"
| "load (JBool b) st = (VBool b, st)"
| "load (JNum n) st = (VNum n, st)"
| "load (JStr s) st = (VStr s, st)"
| "load (JArr xs) st = (case loadList xs st of (vs, st1) \<Rightarrow> (VArr vs, st1))"
| "load (JObj kvs) st = (case loadFields kvs st of (ob, st1) \<Rightarrow> alloc ob st1)"
| "loadList [] st = ([], st)"
| "loadList (x # xs) st =
     (case load x st of (v, st1) \<Rightarrow> (case loadList xs st1 of (vs, st2) \<Rightarrow> (v # vs, st2)))"
| "loadFields [] st = ([], st)"
| "loadFields ((k, x) # kvs) st =
     (case load x st of (v, st1) \<Rightarrow> (case loadFields kvs st1 of (ob, st2) \<Rightarrow> ((k, v) # ob, st2)))"

definition emptyStore :: store where
  "emptyStore = \<lparr>cells = (\<lambda>a. []), nextFree = 0\<rparr>"

section \<open>Results of operations that may raise or run on\<close>

text \<open>
  An operation of the emitter returns, raises an error, or (a chain of \<open>allOf\<close>
  references that leads back to itself) recurses without end.  The recursion is bounded
  by a number of nested calls still allowed; \<open>OutOfFuel\<close> says the bound was reached.
\<close>

datatype 'a outcome = OutOfFuel | Raised error | Returned 'a

definition bind :: "'a outcome \<Rightarrow> ('a \<Rightarrow> 'b outcome) \<Rightarrow> 'b outcome" where
  "bind m f = (case m of OutOfFuel \<Rightarrow> OutOfFuel | Raised e \<Rightarrow> Raised e | Returned x \<Rightarrow> f x)"


fun forEach :: "('a \<Rightarrow> 's \<Rightarrow> 's outcome) \<Rightarrow> 'a list \<Rightarrow> 's \<Rightarrow> 's outcome" where
  "forEach f [] s = Returned s"
| "forEach f (x # xs) s = bind (f x s) (forEach f xs)"

section \<open>Helpers of \<open>utils\<close> and \<open>jsonPointer\<close>\<close>

text \<open>The elements of a list, each once, in the order of their first occurrence.\<close>

fun distinctFirst :: "'a list \<Rightarrow> 'a list" where
  "distinctFirst [] = []"
| "distinctFirst (x # xs) = x # distinctFirst (filter (\<lambda>y. y \<noteq> x) xs)"

text \<open>
  Modelled from the spec: \<open>utils.reduceTypes\<close>, which is not in the sources at hand.
  The specification has a type array reduced to its minimal distinct set, and leaves open
  whether one numeric type subsumes another; the model keeps every distinct entry.
\<close>

definition reduceTypes :: "val list \<Rightarrow> val list" where
  "reduceTypes types = distinctFirst types"

text \<open>
  Modelled from the spec: \<open>utils.mergeSchema(a, b)\<close>, which is not in the sources at
  hand.  The merge policy of the specification, key by key of \<open>b\<close>: an object-valued key
  is united by member name into the object that \<open>a\<close> has under the key (a new object
  when \<open>a\<close> has none), entries of \<open>b\<close> overriding on collision; an array-valued key is
  concatenated to the array that \<open>a\<close> has, duplicates removed; any other key is
  overwritten.  \<open>a\<close> is changed in place.  A \<open>b\<close> that is no object has no keys.
\<close>

definition mergeKey :: "addr \<Rightarrow> val \<Rightarrow> string \<Rightarrow> store \<Rightarrow> store" where
  "mergeKey a b key st =
     (case getProp st b key of
        VArr ys \<Rightarrow>
          setProp a key
            (VArr (distinctFirst ((case getProp st (VRef a) key of VArr xs \<Rightarrow> xs | _ \<Rightarrow> []) @ ys))) st
      | VRef c \<Rightarrow>
          (case getProp st (VRef a) key of
             VRef t \<Rightarrow> fold (\<lambda>(k, x). setProp t k x) (cells st c) st
           | _ \<Rightarrow> (case alloc (cells st c) st of (t, st1) \<Rightarrow> setProp a key t st1))
      | v \<Rightarrow> setProp a key v st)"

definition mergeSchema :: "addr \<Rightarrow> val \<Rightarrow> store \<Rightarrow> store" where
  "mergeSchema a b st =
     (case b of VRef c \<Rightarrow> fold (mergeKey a b) (map fst (cells st c)) st | _ \<Rightarrow> st)"

text \<open>The decimal numeral of an index, as in \<open>'/items/' + i\<close>.\<close>

function showNat :: "nat \<Rightarrow> string" where
  "showNat n =
     (if n < 10 then [''0123456789'' ! n]
      else showNat (n div 10) @ [''0123456789'' ! (n mod 10)])"
  by pat_completeness auto
termination
  by (relation "measure id") auto

declare showNat.simps [simp del]

text \<open>
  Modelled from the spec: \<open>JsonPointer.get(obj, tokens)\<close>, which is not in the sources at
  hand: navigation into the content, by key into an object and by index into an array
  (an array has the key \<open>t\<close> when \<open>t\<close> is the numeral of an index below its length);
  a pointer that does not exist in the content is a fatal error.
\<close>

datatype pointer_step = Missing | Found val

fun getPointer :: "store \<Rightarrow> val \<Rightarrow> string list \<Rightarrow> pointer_step" where
  "getPointer st v [] = Found v"
| "getPointer st v (t # ts) =
     (case v of
        VRef a \<Rightarrow>
          (case map_of (cells st a) t of
             Some x \<Rightarrow> getPointer st x ts
           | None \<Rightarrow> Missing)
      | VArr xs \<Rightarrow>
          (case find (\<lambda>i. showNat i = t) [0..<length xs] of
             Some i \<Rightarrow> getPointer st (xs ! i) ts
           | None \<Rightarrow> Missing)
      | _ \<Rightarrow> Missing)"

section \<open>Normalization: \<open>getSubSchema\<close> and \<open>normalizeContent\<close>\<close>

text \<open>
  What the resolver answers for \<open>dereference(id)\<close>: the id is not registered (the
  resolver throws), or it is registered with a schema; \<open>WithoutId\<close> is a registered
  schema whose \<open>id\<close> is \<open>null\<close> or \<open>undefined\<close>.
\<close>

datatype registered = Unregistered | WithoutId "val schema" | Registered "val schema"

text \<open>
  The collaborators that are not in the sources at hand, as parameters:
  \<open>this.resolver.dereference\<close>; the methods \<open>getAbsoluteId\<close> and \<open>isEmpty\<close> of
  \<open>SchemaId\<close>; \<open>JsonPointer.parse\<close>; and \<open>utils.toTSType(type, content)\<close>, which
  answers with the name of the target type, \<open>None\<close> standing for an answer that is not
  truthy (the content is given as the objects and the value of the content).
\<close>

record env =
  dereference :: "string \<Rightarrow> registered"
  getAbsoluteId :: "schema_id \<Rightarrow> string"
  isEmpty :: "schema_id \<Rightarrow> bool"
  parse :: "string \<Rightarrow> string list"
  toTSType :: "string \<Rightarrow> store \<Rightarrow> val \<Rightarrow> string option"

definition schemaOf :: "registered \<Rightarrow> val schema option" where
  "schemaOf r = (case r of Unregistered \<Rightarrow> None | WithoutId s \<Rightarrow> Some s | Registered s \<Rightarrow> Some s)"

text \<open>
  \<open>getSubSchema(rootSchema, pointer)\<close>, as \<open>normalizeContent\<close> calls it (without an
  explicit id).  \<open>getId\<close> reads the id property of the sub-content; reading it from
  \<open>null\<close> or \<open>undefined\<close> raises.  An id is typed \<open>string | undefined\<close>.
\<close>

definition getSubSchema :: "env \<Rightarrow> val schema \<Rightarrow> string \<Rightarrow> store \<Rightarrow> val schema outcome" where
  "getSubSchema ev rootSchema pointer st =
     (case getPointer st (content rootSchema) (parse ev pointer) of
        Missing \<Rightarrow> Raised (Error (''pointer does not exist: '' @ pointer))
      | Found c \<Rightarrow>
          (if c = VNull \<or> c = VUndefined
           then Raised (TypeError ''Cannot read property id of null or undefined'')
           else (let subId = getProp st c (getIdPropertyName (stype rootSchema));
                     parentIds = map (getAbsoluteId ev) (sid rootSchema # rootIds rootSchema);
                     i = (case subId of
                            VStr s \<Rightarrow> (if s \<noteq> [] then SchemaId s (Some parentIds)
                                      else SchemaId pointer (Some parentIds))
                          | _ \<Rightarrow> SchemaId pointer (Some parentIds))
                 in Returned \<lparr>stype = stype rootSchema, openApiVersion = None, sid = i,
                              content = c, rootIds = sid rootSchema # rootIds rootSchema\<rparr>)))"

text \<open>
  The second half of \<open>normalizeContent\<close>, on the object at \<open>a\<close>: a missing type becomes
  \<open>object\<close> when \<open>properties\<close> or \<open>additionalProperties\<close> is truthy, and a type array is
  reduced and unwrapped when one entry remains.
\<close>

definition inferType :: "addr \<Rightarrow> store \<Rightarrow> store" where
  "inferType a st =
     (let types = getProp st (VRef a) ''type''
      in if types = VUndefined
            \<and> (truthyV (getProp st (VRef a) ''properties'')
                 \<or> truthyV (getProp st (VRef a) ''additionalProperties''))
         then setProp a ''type'' (VStr ''object'') st
         else (case types of
                 VArr ts \<Rightarrow>
                   (let reduced = reduceTypes ts
                    in setProp a ''type''
                         (if length reduced = 1 then reduced ! 0 else VArr reduced) st)
               | _ \<Rightarrow> st))"

text \<open>
  The first half of \<open>normalizeContent\<close>, on the object at \<open>a\<close> (\<open>work\<close> and
  \<open>content\<close> in the source): the loop over \<open>content.allOf\<close> and \<open>delete content.allOf\<close>.
  \<open>recurse\<close> is the recursive call \<open>this.normalizeContent(ref)\<close>.  \<open>content.allOf\<close>
  is typed as an array of schemas and a \<open>$ref\<close> as a string; a truthy value of another
  kind raises in the model.
\<close>

definition foldMember ::
  "(val schema \<Rightarrow> store \<Rightarrow> (val schema \<times> store) outcome) \<Rightarrow> env \<Rightarrow> addr \<Rightarrow> val \<Rightarrow> store
     \<Rightarrow> store outcome" where
  "foldMember recurse ev a sub st =
     (if sub = VNull then Raised (TypeError ''Cannot read property $ref of null'')
      else if truthyV (getProp st sub ''$ref'')
      then (case getProp st sub ''$ref'' of
              VStr r \<Rightarrow>
                (case schemaOf (dereference ev r) of
                   None \<Rightarrow> Raised (ResolutionError r)
                 | Some ref \<Rightarrow>
                     bind (recurse ref st)
                       (\<lambda>(normalized, st1). Returned (mergeSchema a (content normalized) st1)))
            | _ \<Rightarrow> Raised (TypeError ''$ref is not a string''))
      else Returned (mergeSchema a sub st))"

definition foldAllOf ::
  "(val schema \<Rightarrow> store \<Rightarrow> (val schema \<times> store) outcome) \<Rightarrow> env \<Rightarrow> addr \<Rightarrow> store
     \<Rightarrow> store outcome" where
  "foldAllOf recurse ev a st =
     (if truthyV (getProp st (VRef a) ''allOf'')
      then (case getProp st (VRef a) ''allOf'' of
              VArr subs \<Rightarrow>
                bind (forEach (foldMember recurse ev a) subs st)
                  (\<lambda>st1. Returned (deleteProp a ''allOf'' st1))
            | _ \<Rightarrow> Raised (TypeError ''content.allOf is not iterable''))
      else Returned st)"

text \<open>
  \<open>normalizeContent(schema, pointer)\<close>.  The first argument bounds the nesting of calls
  through \<open>allOf\<close> references.  A boolean content is replaced by a new object; an object
  is changed in place; \<open>null\<close> and \<open>undefined\<close> raise on the first property read, and
  any other content is returned as it is.
\<close>

fun normalizeContent ::
  "nat \<Rightarrow> env \<Rightarrow> val schema \<Rightarrow> string option \<Rightarrow> store \<Rightarrow> (val schema \<times> store) outcome" where
  "normalizeContent 0 ev schema pointer st = OutOfFuel"
| "normalizeContent (Suc n) ev schema pointer st =
     bind (case pointer of
             None \<Rightarrow> Returned schema
           | Some p \<Rightarrow> getSubSchema ev schema p st)
       (\<lambda>schema1.
          (case content schema1 of
             VBool b \<Rightarrow>
               (if b
                then (case alloc [] st of (c, st1) \<Rightarrow> Returned (schema1\<lparr>content := c\<rparr>, st1))
                else (case alloc [] st of (e, st1) \<Rightarrow>
                        (case alloc [(''not'', e)] st1 of (c, st2) \<Rightarrow>
                           Returned (schema1\<lparr>content := c\<rparr>, st2))))
           | VRef a \<Rightarrow>
               bind (foldAllOf (\<lambda>ref. normalizeContent n ev ref None) ev a st)
                 (\<lambda>st1. Returned (schema1, inferType a st1))
           | VNull \<Rightarrow> Raised (TypeError ''Cannot read property allOf of null'')
           | VUndefined \<Rightarrow> Raised (TypeError ''Cannot read property allOf of undefined'')
           | _ \<Rightarrow> Returned (schema1, st)))"

section \<open>The emitter\<close>

text \<open>
  The calls that the generator makes on \<open>this.convertor\<close>, with their arguments.  An
  optional argument that a call leaves out is \<open>None\<close>.  A schema argument is passed by
  reference: the call holds its id and the address of its content.  A call of
  \<open>outputArrayedType\<close> is recorded with the number of entries of its list.
\<close>

datatype convertor_call =
    Start
  | End
  | StartNestCall string
  | EndNestCall
  | OutputComments "val schema"
  | OutputExportType schema_id
  | StartInterfaceNest schema_id
  | EndInterfaceNest
  | OutputRawValue string "bool option"
  | OutputStringTypeName "val schema" string bool "bool option"
  | OutputPrimitiveTypeName "val schema" string bool bool
  | OutputTypeIdName "val schema" "val schema option" bool
  | OutputPropertyAttribute "val schema"
  | OutputPropertyName "val schema" string val
  | StartTypeNest
  | EndTypeNest bool
  | OutputArrayedType "val schema" nat bool

text \<open>
  The state of a generation run: the objects, the calls made so far on the convertor, and
  the field \<open>this.currentSchema\<close>.
\<close>

record emitter =
  objects :: store
  written :: "convertor_call list"
  currentSchema :: "val schema option"

definition out :: "convertor_call \<Rightarrow> emitter \<Rightarrow> emitter outcome" where
  "out c em = Returned (em\<lparr>written := written em @ [c]\<rparr>)"

text \<open>\<open>this.normalizeContent(schema, pointer)\<close> on the objects of the run.\<close>

definition normalizeIn ::
  "nat \<Rightarrow> env \<Rightarrow> val schema \<Rightarrow> string option \<Rightarrow> emitter \<Rightarrow> (val schema \<times> emitter) outcome" where
  "normalizeIn n ev schema pointer em =
     bind (normalizeContent n ev schema pointer (objects em))
       (\<lambda>(normalized, st). Returned (normalized, em\<lparr>objects := st\<rparr>))"

text \<open>\<open>'' + value\<close> and \<open>`${value}`\<close>: the string of a JSON value.\<close>

fun toStringV :: "val \<Rightarrow> string" where
  "toStringV VUndefined = ''undefined''"
| "toStringV VNull = ''null''"
| "toStringV (VBool b) = (if b then ''true'' else ''false'')"
| "toStringV (VNum i) = (if i < 0 then ''-'' @ showNat (nat (- i)) else showNat (nat i))"
| "toStringV (VStr s) = s"
| "toStringV (VArr xs) =
     concat (intersperse '','' (map (\<lambda>x. if x = VNull \<or> x = VUndefined then [] else toStringV x) xs))"
| "toStringV (VRef a) = ''[object Object]''"

text \<open>\<open>Object.keys(v)\<close> for an object or an array.\<close>

definition keysOf :: "store \<Rightarrow> val \<Rightarrow> string list" where
  "keysOf st v =
     (case v of
        VRef a \<Rightarrow> map fst (cells st a)
      | VArr xs \<Rightarrow> map showNat [0..<length xs]
      | _ \<Rightarrow> [])"

text \<open>
  Modelled from the spec: \<open>SchemaConvertor.outputArrayedType(schema, types, output,
  terminate)\<close>, which is not in the sources at hand, renders the union of the entries of
  \<open>types\<close>: it calls the callback \<open>output\<close> once for each entry with its index, in
  order.  The calls made by the callbacks follow the record of the call itself.
\<close>

definition outputArrayedType ::
  "val schema \<Rightarrow> 'a list \<Rightarrow> ('a \<Rightarrow> nat \<Rightarrow> emitter \<Rightarrow> emitter outcome) \<Rightarrow> bool \<Rightarrow> emitter
     \<Rightarrow> emitter outcome" where
  "outputArrayedType schema types output terminate em =
     bind (out (OutputArrayedType schema (length types) terminate) em)
       (forEach (\<lambda>(t, index). output t index) (zip types [0..<length types]))"

text \<open>
  The methods of the emitter that call each other, each with its arguments: a call of
  one of them from another is made through \<open>invoke\<close>, which \<open>emit\<close> below supplies.
\<close>

datatype task =
    GenerateProperties "val schema"
  | GenerateTypeProperty "val schema" bool
  | GenerateArrayedType "val schema" val string bool
  | GenerateArrayTypeProperty "val schema" bool
  | GenerateType "val schema" bool bool
  | GenerateTypeName "val schema" val bool bool

type_synonym dispatch = "task \<Rightarrow> emitter \<Rightarrow> emitter outcome"

text \<open>
  \<open>generateProperties(baseSchema)\<close>, in its two parts: the block for
  \<open>content.additionalProperties\<close>, and the body of the loop over the keys of
  \<open>content.properties\<close>.  \<open>n\<close> bounds the nesting of calls inside
  \<open>normalizeContent\<close>.
\<close>

definition additionalPropertiesPart ::
  "dispatch \<Rightarrow> nat \<Rightarrow> env \<Rightarrow> val schema \<Rightarrow> emitter \<Rightarrow> emitter outcome" where
  "additionalPropertiesPart invoke n ev baseSchema em =
     (if truthyV (getProp (objects em) (content baseSchema) ''additionalProperties'')
      then bind (out (OutputRawValue ''[name: string]: '' None) em)
             (\<lambda>em1. bind (normalizeIn n ev baseSchema (Some ''/additionalProperties'') em1)
                (\<lambda>(schema, em2).
                   if getProp (objects em2) (content baseSchema) ''additionalProperties''
                        = VBool True
                   then out (OutputStringTypeName schema ''any'' True None) em2
                   else invoke (GenerateTypeProperty schema True) em2))
      else Returned em)"

definition propertyStep ::
  "dispatch \<Rightarrow> nat \<Rightarrow> env \<Rightarrow> val schema \<Rightarrow> string \<Rightarrow> emitter \<Rightarrow> emitter outcome" where
  "propertyStep invoke n ev baseSchema propertyName em =
     bind (normalizeIn n ev baseSchema (Some (''/properties/'' @ propertyName)) em)
       (\<lambda>(schema, em1).
          bind (out (OutputComments schema) em1)
            (\<lambda>em2. bind (out (OutputPropertyAttribute schema) em2)
               (\<lambda>em3. bind (out (OutputPropertyName schema propertyName
                                   (getProp (objects em3) (content baseSchema) ''required'')) em3)
                  (invoke (GenerateTypeProperty schema True)))))"

definition generateProperties ::
  "dispatch \<Rightarrow> nat \<Rightarrow> env \<Rightarrow> val schema \<Rightarrow> emitter \<Rightarrow> emitter outcome" where
  "generateProperties invoke n ev baseSchema em =
     bind (additionalPropertiesPart invoke n ev baseSchema em)
       (\<lambda>em1.
          if truthyV (getProp (objects em1) (content baseSchema) ''properties'')
          then forEach (propertyStep invoke n ev baseSchema)
                 (keysOf (objects em1) (getProp (objects em1) (content baseSchema) ''properties''))
                 em1
          else Returned em1)"

text \<open>
  \<open>generateTypeProperty(schema, terminate)\<close>.  The keywords are typed (\<open>$ref\<close> a
  string, \<open>enum\<close>, \<open>anyOf\<close> and \<open>oneOf\<close> arrays).  A truthy value of another kind is
  passed to the resolver or to the convertor, which are not in the sources at hand; the
  model has such a call raise.
\<close>

definition generateTypeProperty ::
  "dispatch \<Rightarrow> nat \<Rightarrow> env \<Rightarrow> val schema \<Rightarrow> bool \<Rightarrow> emitter \<Rightarrow> emitter outcome" where
  "generateTypeProperty invoke n ev schema terminate em =
     (if truthyV (getProp (objects em) (content schema) ''$ref'')
      then (case getProp (objects em) (content schema) ''$ref'' of
              VStr r \<Rightarrow>
                (case dereference ev r of
                   Unregistered \<Rightarrow> Raised (ResolutionError r)
                 | WithoutId ref \<Rightarrow> Raised (Error (''target referenced id is nothing: '' @ r))
                 | Registered ref \<Rightarrow>
                     bind (normalizeIn n ev ref None em)
                       (\<lambda>(normalized, em1).
                          out (OutputTypeIdName normalized (currentSchema em1) terminate) em1))
            | _ \<Rightarrow> Raised (TypeError ''$ref is not a string''))
      else if truthyV (getProp (objects em) (content schema) ''anyOf'')
              \<or> truthyV (getProp (objects em) (content schema) ''oneOf'')
      then bind (invoke (GenerateArrayedType schema
                           (getProp (objects em) (content schema) ''anyOf'') ''/anyOf/'' terminate)
                   em)
             (\<lambda>em1. invoke (GenerateArrayedType schema
                               (getProp (objects em1) (content schema) ''oneOf'') ''/oneOf/''
                               terminate)
                      em1)
      else if truthyV (getProp (objects em) (content schema) ''enum'')
      then (case getProp (objects em) (content schema) ''enum'' of
              VArr values \<Rightarrow>
                outputArrayedType schema values
                  (\<lambda>v index em1.
                     if getProp (objects em1) (content schema) ''type'' = VStr ''integer''
                     then out (OutputRawValue (toStringV v) None) em1
                     else out (OutputRawValue ([CHR 0x22] @ toStringV v @ [CHR 0x22]) None) em1)
                  terminate em
            | _ \<Rightarrow> Raised (TypeError ''types.forEach is not a function''))
      else if hasKey (objects em) (content schema) ''const''
      then (if getProp (objects em) (content schema) ''type'' = VStr ''integer''
            then out (OutputStringTypeName schema
                        (toStringV (getProp (objects em) (content schema) ''const''))
                        terminate None) em
            else out (OutputStringTypeName schema
                        ([CHR 0x22] @ toStringV (getProp (objects em) (content schema) ''const'')
                           @ [CHR 0x22])
                        terminate None) em)
      else invoke (GenerateType schema terminate True) em)"

text \<open>
  \<open>generateArrayedType(baseSchema, contents, path, terminate)\<close>; \<open>arrayedTypeStep\<close>
  is the callback that it gives to \<open>outputArrayedType\<close>.
\<close>

definition arrayedTypeStep ::
  "dispatch \<Rightarrow> nat \<Rightarrow> env \<Rightarrow> val schema \<Rightarrow> string \<Rightarrow> nat \<Rightarrow> emitter \<Rightarrow> emitter outcome" where
  "arrayedTypeStep invoke n ev baseSchema path index em =
     bind (normalizeIn n ev baseSchema (Some (path @ showNat index)) em)
       (\<lambda>(schema, em1).
          if isEmpty ev (sid schema)
          then invoke (GenerateTypeProperty schema False) em1
          else out (OutputTypeIdName schema (currentSchema em1) False) em1)"

definition generateArrayedType ::
  "dispatch \<Rightarrow> nat \<Rightarrow> env \<Rightarrow> val schema \<Rightarrow> val \<Rightarrow> string \<Rightarrow> bool \<Rightarrow> emitter
     \<Rightarrow> emitter outcome" where
  "generateArrayedType invoke n ev baseSchema contents path terminate em =
     (if truthyV contents
      then (case contents of
              VArr xs \<Rightarrow>
                outputArrayedType baseSchema xs
                  (\<lambda>c index. arrayedTypeStep invoke n ev baseSchema path index)
                  terminate em
            | _ \<Rightarrow> Raised (TypeError ''types.forEach is not a function''))
      else Returned em)"

text \<open>
  The number that JavaScript takes a value for where it compares or adds, \<open>None\<close>
  standing for \<open>NaN\<close>: \<open>null\<close> and \<open>false\<close> are \<open>0\<close>, \<open>true\<close> is \<open>1\<close>, a string is
  the number it denotes (the empty string \<open>0\<close>), and an array or object is the number of
  its string.  The numbers of the model are the integers: of the numerals of a string, the
  decimal integers with an optional sign are read, and a numeral with a fraction, an
  exponent or a radix prefix is not.
\<close>

definition isDigit :: "char \<Rightarrow> bool" where
  "isDigit c = (c \<in> set ''0123456789'')"

definition digitValue :: "char \<Rightarrow> int" where
  "digitValue c = int (of_char c) - 48"

definition isSpace :: "char \<Rightarrow> bool" where
  "isSpace c = (c \<in> set [CHR '' '', CHR 0x09, CHR 0x0A, CHR 0x0B, CHR 0x0C, CHR 0x0D, CHR 0xA0])"

definition decimal :: "string \<Rightarrow> int option" where
  "decimal ds =
     (if ds \<noteq> [] \<and> list_all isDigit ds
      then Some (foldl (\<lambda>m c. 10 * m + digitValue c) 0 ds)
      else None)"

definition numberOfString :: "string \<Rightarrow> int option" where
  "numberOfString s =
     (let t = rev (dropWhile isSpace (rev (dropWhile isSpace s)))
      in case t of
           [] \<Rightarrow> Some 0
         | c # ds \<Rightarrow>
             (if c = CHR ''-'' then map_option uminus (decimal ds)
              else if c = CHR ''+'' then decimal ds
              else decimal t))"

fun toNumber :: "val \<Rightarrow> int option" where
  "toNumber VUndefined = None"
| "toNumber VNull = Some 0"
| "toNumber (VBool b) = Some (if b then 1 else 0)"
| "toNumber (VNum m) = Some m"
| "toNumber (VStr s) = numberOfString s"
| "toNumber (VArr xs) = numberOfString (toStringV (VArr xs))"
| "toNumber (VRef a) = None"

text \<open>
  The method \<open>generateArrayTypeProperty(schema, terminate)\<close> on the state of the run.
  \<open>arrayCalls\<close> gives the calls of \<open>generateArrayTypeProperty\<close> above for the \<open>items\<close>
  and \<open>minItems\<close> of the content: a \<open>minItems\<close> that is present counts as its number
  in \<open>Math.max\<close>, in the comparisons and in \<open>unionIndex++\<close>, and when that is \<open>NaN\<close>
  the loop over \<open>unionIndex\<close> is not entered.  \<open>arrayCallStep\<close> makes one of these
  calls, the type of an item being written by \<open>generateTypeProperty\<close> or
  \<open>outputTypeIdName\<close>.
\<close>

definition arrayCalls :: "store \<Rightarrow> val schema \<Rightarrow> bool \<Rightarrow> array_call list" where
  "arrayCalls st schema terminate =
     (let its = getProp st (content schema) ''items'';
          minItems = getProp st (content schema) ''minItems''
      in if its = VUndefined \<or> its = VNull
         then generateArrayTypeProperty NoItems None terminate
         else (case its of
                 VArr xs \<Rightarrow>
                   (if minItems = VUndefined
                    then generateArrayTypeProperty (SchemaList (length xs)) None terminate
                    else (case toNumber minItems of
                            Some m \<Rightarrow>
                              generateArrayTypeProperty (SchemaList (length xs)) (Some m) terminate
                          | None \<Rightarrow> [StringTypeName [] terminate None]))
               | _ \<Rightarrow> generateArrayTypeProperty OneSchema None terminate))"

definition arrayCallStep ::
  "dispatch \<Rightarrow> nat \<Rightarrow> env \<Rightarrow> val schema \<Rightarrow> array_call \<Rightarrow> emitter \<Rightarrow> emitter outcome" where
  "arrayCallStep invoke n ev schema c em =
     (case c of
        RawValue s \<Rightarrow> out (OutputRawValue s None) em
      | StringTypeName s t optional \<Rightarrow> out (OutputStringTypeName schema s t optional) em
      | ItemsType \<Rightarrow>
          bind (normalizeIn n ev schema (Some ''/items'') em)
            (\<lambda>(sub, em1). invoke (GenerateTypeProperty sub False) em1)
      | ItemType i \<Rightarrow>
          bind (normalizeIn n ev schema (Some (''/items/'' @ showNat i)) em)
            (\<lambda>(ty, em1).
               if isEmpty ev (sid ty)
               then invoke (GenerateTypeProperty ty False) em1
               else out (OutputTypeIdName ty (currentSchema em1) False) em1))"

definition emitArrayTypeProperty ::
  "dispatch \<Rightarrow> nat \<Rightarrow> env \<Rightarrow> val schema \<Rightarrow> bool \<Rightarrow> emitter \<Rightarrow> emitter outcome" where
  "emitArrayTypeProperty invoke n ev schema terminate em =
     forEach (arrayCallStep invoke n ev schema) (arrayCalls (objects em) schema terminate) em"

text \<open>
  \<open>generateType(schema, terminate, outputOptional)\<close>.  A type list that reduces to at
  most one entry is replaced, in the content, by that entry (\<open>undefined\<close> when there is
  none), and the method calls itself.  A type is typed as a string or a list; a type of
  another kind is passed to \<open>utils.reduceTypes\<close>, which is not in the sources at hand,
  and the model has this call raise.
\<close>

definition generateType ::
  "dispatch \<Rightarrow> env \<Rightarrow> val schema \<Rightarrow> bool \<Rightarrow> bool \<Rightarrow> emitter \<Rightarrow> emitter outcome" where
  "generateType invoke ev schema terminate outputOptional em =
     (let ty = getProp (objects em) (content schema) ''type''
      in if ty = VUndefined \<or> ty = VNull
         then out (OutputPrimitiveTypeName schema ''any'' terminate outputOptional) em
         else (case ty of
                 VStr s \<Rightarrow> invoke (GenerateTypeName schema ty terminate outputOptional) em
               | VArr ts \<Rightarrow>
                   (let types = reduceTypes ts
                    in if length types \<le> 1
                       then invoke (GenerateType schema terminate outputOptional)
                              (em\<lparr>objects :=
                                 (case content schema of
                                    VRef a \<Rightarrow> setProp a ''type''
                                               (if types = [] then VUndefined else types ! 0)
                                               (objects em)
                                  | _ \<Rightarrow> objects em)\<rparr>)
                       else outputArrayedType schema types
                              (\<lambda>t index. invoke (GenerateTypeName schema t False False))
                              terminate em)
               | _ \<Rightarrow> Raised (TypeError ''types is not an array'')))"

text \<open>
  \<open>generateTypeName(schema, type, terminate, outputOptional)\<close>.  \<open>type\<close> is typed as a
  string; the model takes an entry of another kind for a type that is not known.
\<close>

definition generateTypeName ::
  "dispatch \<Rightarrow> env \<Rightarrow> val schema \<Rightarrow> val \<Rightarrow> bool \<Rightarrow> bool \<Rightarrow> emitter \<Rightarrow> emitter outcome" where
  "generateTypeName invoke ev schema ty terminate outputOptional em =
     (case ty of
        VStr t \<Rightarrow>
          (case toTSType ev t (objects em) (content schema) of
             Some tsType \<Rightarrow> out (OutputPrimitiveTypeName schema tsType terminate outputOptional) em
           | None \<Rightarrow>
               (if t = ''object''
                then bind (out StartTypeNest em)
                       (\<lambda>em1. bind (invoke (GenerateProperties schema) em1)
                          (out (EndTypeNest terminate)))
                else if t = ''array''
                then invoke (GenerateArrayTypeProperty schema terminate) em
                else Raised (Error (''unknown type: '' @ t))))
      | _ \<Rightarrow> Raised (Error (''unknown type: '' @ toStringV ty)))"

text \<open>
  A call of a method of the emitter, with at most \<open>n\<close> calls nested in each other: the
  bound is reached by a schema that contains itself, and is passed on to
  \<open>normalizeContent\<close>.
\<close>

primrec emit :: "nat \<Rightarrow> env \<Rightarrow> task \<Rightarrow> emitter \<Rightarrow> emitter outcome" where
  "emit 0 ev t em = OutOfFuel"
| "emit (Suc n) ev t em =
     (case t of
        GenerateProperties baseSchema \<Rightarrow> generateProperties (emit n ev) n ev baseSchema em
      | GenerateTypeProperty schema terminate \<Rightarrow>
          generateTypeProperty (emit n ev) n ev schema terminate em
      | GenerateArrayedType baseSchema contents path terminate \<Rightarrow>
          generateArrayedType (emit n ev) n ev baseSchema contents path terminate em
      | GenerateArrayTypeProperty schema terminate \<Rightarrow>
          emitArrayTypeProperty (emit n ev) n ev schema terminate em
      | GenerateType schema terminate outputOptional \<Rightarrow>
          generateType (emit n ev) ev schema terminate outputOptional em
      | GenerateTypeName schema ty terminate outputOptional \<Rightarrow>
          generateTypeName (emit n ev) ev schema ty terminate outputOptional em)"

text \<open>\<open>generateDeclareType\<close>, \<open>generateTypeModel\<close>, \<open>generateTypeCollection\<close>.\<close>

definition generateDeclareType :: "nat \<Rightarrow> env \<Rightarrow> val schema \<Rightarrow> emitter \<Rightarrow> emitter outcome" where
  "generateDeclareType n ev schema em =
     bind (out (OutputExportType (sid schema)) em) (emit n ev (GenerateTypeProperty schema True))"

definition generateTypeModel :: "nat \<Rightarrow> env \<Rightarrow> val schema \<Rightarrow> emitter \<Rightarrow> emitter outcome" where
  "generateTypeModel n ev schema em =
     bind (out (StartInterfaceNest (sid schema)) em)
       (\<lambda>em1. bind (if getProp (objects em1) (content schema) ''type'' = VStr ''any''
                     then out (OutputRawValue ''[name: string]: any; // any'' (Some True)) em1
                     else Returned em1)
          (\<lambda>em2. bind (emit n ev (GenerateProperties schema) em2) (out EndInterfaceNest)))"

definition generateTypeCollection :: "nat \<Rightarrow> env \<Rightarrow> val schema \<Rightarrow> emitter \<Rightarrow> emitter outcome" where
  "generateTypeCollection n ev schema em =
     bind (out (OutputExportType (sid schema)) em)
       (emit n ev (GenerateArrayTypeProperty schema True))"

text \<open>\<open>walkSchema(schema)\<close>.\<close>

definition walkSchema :: "nat \<Rightarrow> env \<Rightarrow> val schema \<Rightarrow> emitter \<Rightarrow> emitter outcome" where
  "walkSchema n ev schema em =
     bind (normalizeIn n ev schema None em)
       (\<lambda>(normalized, em1).
          bind (out (OutputComments normalized) (em1\<lparr>currentSchema := Some normalized\<rparr>))
            (\<lambda>em2.
               (let ty = getProp (objects em2) (content normalized) ''type''
                in if ty = VStr ''object'' \<or> ty = VStr ''any''
                   then generateTypeModel n ev normalized em2
                   else if ty = VStr ''array''
                   then generateTypeCollection n ev normalized em2
                   else generateDeclareType n ev normalized em2)))"

text \<open>
  The method \<open>walk(map)\<close> on the state of the run: it makes the calls of \<open>walk\<close> above.
  The type marker is a member of a node of the namespace map; its deletion changes no
  schema object.
\<close>

definition walkStep :: "nat \<Rightarrow> env \<Rightarrow> (val schema) walk_call \<Rightarrow> emitter \<Rightarrow> emitter outcome" where
  "walkStep n ev c em =
     (case c of
        WalkSchema schema \<Rightarrow> walkSchema n ev schema em
      | DeleteTypeMarker \<Rightarrow> Returned em
      | StartNest key \<Rightarrow> out (StartNestCall key) em
      | EndNest \<Rightarrow> out EndNestCall em)"

definition walkMap ::
  "nat \<Rightarrow> env \<Rightarrow> (string \<times> val schema node) list \<Rightarrow> emitter \<Rightarrow> emitter outcome" where
  "walkMap n ev namespaces em = forEach (walkStep n ev) (walk namespaces) em"

text \<open>
  \<open>generate\<close>, from the namespace map on: \<open>this.convertor.start()\<close>, the walk, and
  \<open>this.convertor.end()\<close>, whose result \<open>generate\<close> returns.  The text is what the
  convertor makes of the calls it received, so the result is given as these calls.  An
  exception leaves \<open>generate\<close> without a result.
\<close>

definition generate ::
  "nat \<Rightarrow> env \<Rightarrow> (string \<times> val schema node) list \<Rightarrow> store \<Rightarrow> convertor_call list outcome" where
  "generate n ev namespaces st =
     bind (out Start \<lparr>objects = st, written = [], currentSchema = None\<rparr>)
       (\<lambda>em. bind (walkMap n ev namespaces em)
          (\<lambda>em2. bind (out End em2) (\<lambda>em3. Returned (written em3))))"

section \<open>Schema objects in normal form\<close>

text \<open>
  The object at \<open>a\<close> is in normal form when \<open>normalizeContent\<close> has nothing to do on
  it: it has no \<open>allOf\<close> to fold, it has a type when \<open>properties\<close> or
  \<open>additionalProperties\<close> is truthy, and a type list is its own reduction and has at least
  two entries.  \<open>holdsAllOfList st b\<close>: the object at \<open>b\<close> has an \<open>allOf\<close> that is a list,
  which \<open>normalizeContent\<close> would fold.
\<close>

definition normalForm :: "store \<Rightarrow> addr \<Rightarrow> bool" where
  "normalForm st a =
     (\<not> truthyV (getProp st (VRef a) ''allOf'')
      \<and> (case getProp st (VRef a) ''type'' of
           VUndefined \<Rightarrow> \<not> truthyV (getProp st (VRef a) ''properties'')
                           \<and> \<not> truthyV (getProp st (VRef a) ''additionalProperties'')
         | VArr ts \<Rightarrow> reduceTypes ts = ts \<and> 2 \<le> length ts
         | _ \<Rightarrow> True))"

definition holdsAllOfList :: "store \<Rightarrow> addr \<Rightarrow> bool" where
  "holdsAllOfList st b = (case getProp st (VRef b) ''allOf'' of VArr xs \<Rightarrow> True | _ \<Rightarrow> False)"

text \<open>
  \<open>settled st a\<close>: \<open>a\<close> is an object of the store in normal form, and no object holds an
  \<open>allOf\<close> list.  \<open>keepsNode a em em'\<close>: if \<open>a\<close> is settled in \<open>em\<close>, then it is settled in
  \<open>em'\<close> and is the same object there.  \<open>keepsResult a m em\<close> says this of the state that
  \<open>m\<close> returns, if it returns one.
\<close>

definition settled :: "store \<Rightarrow> addr \<Rightarrow> bool" where
  "settled st a = ((\<forall>b. \<not> holdsAllOfList st b) \<and> normalForm st a \<and> a < nextFree st)"

definition keepsNode :: "addr \<Rightarrow> emitter \<Rightarrow> emitter \<Rightarrow> bool" where
  "keepsNode a em em' =
     (settled (objects em) a
        \<longrightarrow> settled (objects em') a \<and> cells (objects em') a = cells (objects em) a)"

definition keepsResult :: "addr \<Rightarrow> emitter outcome \<Rightarrow> emitter \<Rightarrow> bool" where
  "keepsResult a m em = (case m of Returned em1 \<Rightarrow> keepsNode a em em1 | _ \<Rightarrow> True)"

section \<open>The calls that the methods of the emitter make\<close>

text \<open>
  \<open>calls n ev t em t' em'\<close>: the method \<open>t\<close>, called in the state \<open>em\<close> as \<open>emit (Suc n)
  ev t em\<close>, calls the method \<open>t'\<close> in the state \<open>em'\<close>.  There is one rule for each place
  in the source where a method of the emitter calls one (\<open>generateProperties\<close>,
  \<open>generateTypeProperty\<close>, \<open>generateArrayedType\<close>, \<open>generateArrayTypeProperty\<close>,
  \<open>generateType\<close>, \<open>generateTypeName\<close>); its premises are the branch that leads to the
  call and the statements before the call, which have returned.
\<close>

inductive calls :: "nat \<Rightarrow> env \<Rightarrow> task \<Rightarrow> emitter \<Rightarrow> task \<Rightarrow> emitter \<Rightarrow> bool"
  for n :: nat and ev :: env where
  properties_additional:
    "truthyV (getProp (objects em) (content baseSchema) ''additionalProperties'')
     \<Longrightarrow> out (OutputRawValue ''[name: string]: '' None) em = Returned em1
     \<Longrightarrow> normalizeIn n ev baseSchema (Some ''/additionalProperties'') em1 = Returned (schema, em2)
     \<Longrightarrow> getProp (objects em2) (content baseSchema) ''additionalProperties'' \<noteq> VBool True
     \<Longrightarrow> calls n ev (GenerateProperties baseSchema) em (GenerateTypeProperty schema True) em2"
| properties_property:
    "additionalPropertiesPart (emit n ev) n ev baseSchema em = Returned em1
     \<Longrightarrow> truthyV (getProp (objects em1) (content baseSchema) ''properties'')
     \<Longrightarrow> keysOf (objects em1) (getProp (objects em1) (content baseSchema) ''properties'')
           = before @ propertyName # after
     \<Longrightarrow> forEach (propertyStep (emit n ev) n ev baseSchema) before em1 = Returned em2
     \<Longrightarrow> normalizeIn n ev baseSchema (Some (''/properties/'' @ propertyName)) em2
           = Returned (schema, em3)
     \<Longrightarrow> out (OutputComments schema) em3 = Returned em4
     \<Longrightarrow> out (OutputPropertyAttribute schema) em4 = Returned em5
     \<Longrightarrow> out (OutputPropertyName schema propertyName
                (getProp (objects em5) (content baseSchema) ''required'')) em5 = Returned em6
     \<Longrightarrow> calls n ev (GenerateProperties baseSchema) em (GenerateTypeProperty schema True) em6"
| typeProperty_anyOf:
    "\<not> truthyV (getProp (objects em) (content schema) ''$ref'')
     \<Longrightarrow> truthyV (getProp (objects em) (content schema) ''anyOf'')
           \<or> truthyV (getProp (objects em) (content schema) ''oneOf'')
     \<Longrightarrow> calls n ev (GenerateTypeProperty schema terminate) em
           (GenerateArrayedType schema (getProp (objects em) (content schema) ''anyOf'')
              ''/anyOf/'' terminate) em"
| typeProperty_oneOf:
    "\<not> truthyV (getProp (objects em) (content schema) ''$ref'')
     \<Longrightarrow> truthyV (getProp (objects em) (content schema) ''anyOf'')
           \<or> truthyV (getProp (objects em) (content schema) ''oneOf'')
     \<Longrightarrow> emit n ev (GenerateArrayedType schema (getProp (objects em) (content schema) ''anyOf'')
                     ''/anyOf/'' terminate) em = Returned em1
     \<Longrightarrow> calls n ev (GenerateTypeProperty schema terminate) em
           (GenerateArrayedType schema (getProp (objects em1) (content schema) ''oneOf'')
              ''/oneOf/'' terminate) em1"
| typeProperty_type:
    "\<not> truthyV (getProp (objects em) (content schema) ''$ref'')
     \<Longrightarrow> \<not> truthyV (getProp (objects em) (content schema) ''anyOf'')
     \<Longrightarrow> \<not> truthyV (getProp (objects em) (content schema) ''oneOf'')
     \<Longrightarrow> \<not> truthyV (getProp (objects em) (content schema) ''enum'')
     \<Longrightarrow> \<not> hasKey (objects em) (content schema) ''const''
     \<Longrightarrow> calls n ev (GenerateTypeProperty schema terminate) em
           (GenerateType schema terminate True) em"
| arrayedType_member:
    "zip xs [0..<length xs] = before @ (c, index) # after
     \<Longrightarrow> out (OutputArrayedType baseSchema (length xs) terminate) em = Returned em1
     \<Longrightarrow> forEach (\<lambda>(c, index). arrayedTypeStep (emit n ev) n ev baseSchema path index) before em1
           = Returned em2
     \<Longrightarrow> normalizeIn n ev baseSchema (Some (path @ showNat index)) em2 = Returned (schema, em3)
     \<Longrightarrow> isEmpty ev (sid schema)
     \<Longrightarrow> calls n ev (GenerateArrayedType baseSchema (VArr xs) path terminate) em
           (GenerateTypeProperty schema False) em3"
| arrayTypeProperty_items:
    "arrayCalls (objects em) schema terminate = before @ ItemsType # after
     \<Longrightarrow> forEach (arrayCallStep (emit n ev) n ev schema) before em = Returned em1
     \<Longrightarrow> normalizeIn n ev schema (Some ''/items'') em1 = Returned (sub, em2)
     \<Longrightarrow> calls n ev (GenerateArrayTypeProperty schema terminate) em
           (GenerateTypeProperty sub False) em2"
| arrayTypeProperty_item:
    "arrayCalls (objects em) schema terminate = before @ ItemType i # after
     \<Longrightarrow> forEach (arrayCallStep (emit n ev) n ev schema) before em = Returned em1
     \<Longrightarrow> normalizeIn n ev schema (Some (''/items/'' @ showNat i)) em1 = Returned (ty, em2)
     \<Longrightarrow> isEmpty ev (sid ty)
     \<Longrightarrow> calls n ev (GenerateArrayTypeProperty schema terminate) em
           (GenerateTypeProperty ty False) em2"
| type_name:
    "getProp (objects em) (content schema) ''type'' = VStr s
     \<Longrightarrow> calls n ev (GenerateType schema terminate outputOptional) em
           (GenerateTypeName schema (VStr s) terminate outputOptional) em"
| type_again:
    "getProp (objects em) (content schema) ''type'' = VArr ts
     \<Longrightarrow> length (reduceTypes ts) \<le> 1
     \<Longrightarrow> content schema = VRef a
     \<Longrightarrow> calls n ev (GenerateType schema terminate outputOptional) em
           (GenerateType schema terminate outputOptional)
           (em\<lparr>objects := setProp a ''type''
                             (if reduceTypes ts = [] then VUndefined else reduceTypes ts ! 0)
                             (objects em)\<rparr>)"
| type_list:
    "getProp (objects em) (content schema) ''type'' = VArr ts
     \<Longrightarrow> 1 < length (reduceTypes ts)
     \<Longrightarrow> zip (reduceTypes ts) [0..<length (reduceTypes ts)] = before @ (t, index) # after
     \<Longrightarrow> out (OutputArrayedType schema (length (reduceTypes ts)) terminate) em = Returned em1
     \<Longrightarrow> forEach (\<lambda>(t, index). emit n ev (GenerateTypeName schema t False False)) before em1
           = Returned em2
     \<Longrightarrow> calls n ev (GenerateType schema terminate outputOptional) em
           (GenerateTypeName schema t False False) em2"
| typeName_object:
    "toTSType ev ''object'' (objects em) (content schema) = None
     \<Longrightarrow> out StartTypeNest em = Returned em1
     \<Longrightarrow> calls n ev (GenerateTypeName schema (VStr ''object'') terminate outputOptional) em
           (GenerateProperties schema) em1"
| typeName_array:
    "toTSType ev ''array'' (objects em) (content schema) = None
     \<Longrightarrow> calls n ev (GenerateTypeName schema (VStr ''array'') terminate outputOptional) em
           (GenerateArrayTypeProperty schema terminate) em"

text \<open>
  \<open>reaches ev n t em m t' em'\<close>: the call \<open>emit n ev t em\<close> is, or comes through calls of
  methods to, the call \<open>emit m ev t' em'\<close>.
\<close>

inductive reaches :: "env \<Rightarrow> nat \<Rightarrow> task \<Rightarrow> emitter \<Rightarrow> nat \<Rightarrow> task \<Rightarrow> emitter \<Rightarrow> bool"
  for ev :: env where
  reaches_here: "reaches ev n t em n t em"
| reaches_call:
    "calls n ev t em t1 em1 \<Longrightarrow> reaches ev n t1 em1 m t2 em2
     \<Longrightarrow> reaches ev (Suc n) t em m t2 em2"

text \<open>
  \<open>walkSchemaCalls n ev schema em t em'\<close>: \<open>walkSchema(schema)\<close>, called in the state
  \<open>em\<close>, calls the method \<open>t\<close> in the state \<open>em'\<close>: \<open>generateProperties\<close> from
  \<open>generateTypeModel\<close>, \<open>generateArrayTypeProperty\<close> from \<open>generateTypeCollection\<close>, or
  \<open>generateTypeProperty\<close> from \<open>generateDeclareType\<close>.
\<close>

inductive walkSchemaCalls :: "nat \<Rightarrow> env \<Rightarrow> val schema \<Rightarrow> emitter \<Rightarrow> task \<Rightarrow> emitter \<Rightarrow> bool"
  for n :: nat and ev :: env where
  typeModel:
    "normalizeIn n ev schema None em = Returned (normalized, em1)
     \<Longrightarrow> out (OutputComments normalized) (em1\<lparr>currentSchema := Some normalized\<rparr>) = Returned em2
     \<Longrightarrow> getProp (objects em2) (content normalized) ''type'' = VStr ''object''
           \<or> getProp (objects em2) (content normalized) ''type'' = VStr ''any''
     \<Longrightarrow> out (StartInterfaceNest (sid normalized)) em2 = Returned em3
     \<Longrightarrow> (if getProp (objects em3) (content normalized) ''type'' = VStr ''any''
          then out (OutputRawValue ''[name: string]: any; // any'' (Some True)) em3
          else Returned em3) = Returned em4
     \<Longrightarrow> walkSchemaCalls n ev schema em (GenerateProperties normalized) em4"
| typeCollection:
    "normalizeIn n ev schema None em = Returned (normalized, em1)
     \<Longrightarrow> out (OutputComments normalized) (em1\<lparr>currentSchema := Some normalized\<rparr>) = Returned em2
     \<Longrightarrow> getProp (objects em2) (content normalized) ''type'' = VStr ''array''
     \<Longrightarrow> out (OutputExportType (sid normalized)) em2 = Returned em3
     \<Longrightarrow> walkSchemaCalls n ev schema em (GenerateArrayTypeProperty normalized True) em3"
| declareType:
    "normalizeIn n ev schema None em = Returned (normalized, em1)
     \<Longrightarrow> out (OutputComments normalized) (em1\<lparr>currentSchema := Some normalized\<rparr>) = Returned em2
     \<Longrightarrow> getProp (objects em2) (content normalized) ''type'' \<noteq> VStr ''object''
     \<Longrightarrow> getProp (objects em2) (content normalized) ''type'' \<noteq> VStr ''any''
     \<Longrightarrow> getProp (objects em2) (content normalized) ''type'' \<noteq> VStr ''array''
     \<Longrightarrow> out (OutputExportType (sid normalized)) em2 = Returned em3
     \<Longrightarrow> walkSchemaCalls n ev schema em (GenerateTypeProperty normalized True) em3"

text \<open>
  \<open>generateReaches n ev namespaces st m t em\<close>: the run \<open>generate n ev namespaces st\<close>
  comes to the call \<open>emit m ev t em\<close>: the walk of the namespace map comes to a schema,
  the schemas before it having been written, and \<open>walkSchema\<close> for this schema comes
  through calls of methods to the call.
\<close>

inductive generateReaches ::
  "nat \<Rightarrow> env \<Rightarrow> (string \<times> val schema node) list \<Rightarrow> store \<Rightarrow> nat \<Rightarrow> task \<Rightarrow> emitter \<Rightarrow> bool"
  for n :: nat and ev :: env where
  generateReaches:
    "walk namespaces = before @ WalkSchema schema # after
     \<Longrightarrow> forEach (walkStep n ev) before \<lparr>objects = st, written = [Start], currentSchema = None\<rparr>
           = Returned em
     \<Longrightarrow> walkSchemaCalls n ev schema em t0 em0
     \<Longrightarrow> reaches ev n t0 em0 m t em1
     \<Longrightarrow> generateReaches n ev namespaces st m t em1"

section \<open>Inputs used in the evaluations below\<close>

text \<open>
  An operation with one \<open>path\<close> parameter and one \<open>query\<close> parameter, both required
  and both with an inline schema.
\<close>

definition path_and_query_operation :: "operation schema" where
  "path_and_query_operation =
     \<lparr>stype = Draft07, openApiVersion = Some 3, sid = SchemaId ''op'' None,
      content =
        \<lparr>parameters = Some
           [Obj \<lparr>name = ''id'', location = ''path'', required = True,
                 pschema = Some (JObj [(''type'', JStr ''string'')])\<rparr>,
            Obj \<lparr>name = ''q'', location = ''query'', required = True,
                 pschema = Some (JObj [(''type'', JStr ''string'')])\<rparr>],
         requestBody = None\<rparr>,
      rootIds = []\<rparr>"

text \<open>
  An operation without parameters whose request body comes in the two media types
  \<open>application/json\<close> and \<open>application/xml\<close>, each with an inline schema.
\<close>

definition json_and_xml_operation :: "operation schema" where
  "json_and_xml_operation =
     \<lparr>stype = Draft07, openApiVersion = Some 3, sid = SchemaId ''op'' None,
      content =
        \<lparr>parameters = None,
         requestBody = Some (Obj
           \<lparr>rcontent =
              [(''application/json'',
                  \<lparr>mschema = Some (Obj (JObj [(''type'', JStr ''string'')]))\<rparr>),
               (''application/xml'',
                  \<lparr>mschema = Some (Obj (JObj [(''type'', JStr ''number'')]))\<rparr>)]\<rparr>)\<rparr>,
      rootIds = []\<rparr>"

text \<open>
  Two namespace trees with the same bindings at every level, listed in different orders.
  The schemas are numbered.
\<close>

definition unsorted_namespace_map :: "nat node" where
  "unsorted_namespace_map = Node None [(''b'', Node (Some 1) []),
                 (''a'', Node None [(''z'', Node (Some 2) []), (''c'', Node (Some 3) [])])]"
definition sorted_namespace_map :: "nat node" where
  "sorted_namespace_map = Node None [(''a'', Node None [(''c'', Node (Some 3) []), (''z'', Node (Some 2) [])]),
                 (''b'', Node (Some 1) [])]"

text \<open>
  An OpenAPI v3 document schema, and a paths object with one path item that has an
  operation under \<open>get\<close> and one under \<open>options\<close>, each with an id of its own.
\<close>

definition openapi_document :: "unit schema" where
  "openapi_document =
     \<lparr>stype = Draft07, openApiVersion = Some 3, sid = SchemaId ''doc'' None, content = (),
      rootIds = []\<rparr>"

definition get_and_options_paths :: json where
  "get_and_options_paths =
     JObj [(''/pets'',
            JObj [(''get'', JObj [(''$id'', JStr ''listPets'')]),
                  (''options'', JObj [(''$id'', JStr ''petOptions'')])])]"

text \<open>A schema whose content is the boolean schema \<open>true\<close>.\<close>

definition true_schema :: "val schema" where
  "true_schema = \<lparr>stype = Draft07, openApiVersion = None, sid = SchemaId ''#/definitions/anything'' None,
      content = VBool True, rootIds = []\<rparr>"

text \<open>
  An environment for evaluation: nothing is registered with the resolver, an id is its
  own absolute id and is empty when it is the empty string, a pointer is split at its
  slashes, and the primitive type names are known.  \<open>schemaAt c\<close> is a Draft-07 schema
  with the id \<open>#\<close> and the content \<open>c\<close>.
\<close>

definition plain_env :: env where
  "plain_env =
     \<lparr>dereference = (\<lambda>r. Unregistered),
      getAbsoluteId = (\<lambda>i. case i of SchemaId s ps \<Rightarrow> s),
      isEmpty = (\<lambda>i. case i of SchemaId s ps \<Rightarrow> s = []),
      parse = (\<lambda>p. tl (splitOn CHR ''/'' p)),
      toTSType = (\<lambda>t st c. if t = ''integer'' then Some ''number''
                       else if t \<in> set [''any'', ''null'', ''undefined'', ''string'', ''number'',
                                         ''boolean'']
                       then Some t else None)\<rparr>"

definition schemaAt :: "val \<Rightarrow> val schema" where
  "schemaAt c =
     \<lparr>stype = Draft07, openApiVersion = None, sid = SchemaId ''#'' None, content = c,
      rootIds = []\<rparr>"

text \<open>
  The content that \<open>normalizeContent\<close> returns for a JSON document placed in an empty
  store, read back as JSON.
\<close>

definition normalized :: "json \<Rightarrow> json outcome" where
  "normalized j =
     (case load j emptyStore of
        (c, st) \<Rightarrow>
          bind (normalizeContent 2 plain_env (schemaAt c) None st)
            (\<lambda>(s, st1). Returned (view 3 st1 (content s))))"



text \<open>
  A store with the one object \<open>{type: ['string', 'string']}\<close>, and the example of the
  specification for \<open>allOf\<close>: \<open>{allOf: [{properties: {a: {}}}, {properties: {b: {}},
  required: ['b']}]}\<close>, placed in an empty store.
\<close>

definition string_twice_store :: store where
  "string_twice_store =
     \<lparr>cells = (\<lambda>a. if a = 0 then [(''type'', VArr [VStr ''string'', VStr ''string''])] else []),
      nextFree = 1\<rparr>"

definition allOf_example :: json where
  "allOf_example =
     JObj [(''allOf'',
            JArr [JObj [(''properties'', JObj [(''a'', JObj [])])],
                  JObj [(''properties'', JObj [(''b'', JObj [])]),
                        (''required'', JArr [JStr ''b''])]])]"

text \<open>
  The calls of a generation run for one JSON document, placed in an empty store and
  registered under the one name \<open>Root\<close> of the namespace map.
\<close>

definition generated :: "json \<Rightarrow> convertor_call list outcome" where
  "generated j =
     (case load j emptyStore of
        (c, st) \<Rightarrow> generate 8 plain_env [(''Root'', Node (Some (schemaAt c)) [])] st)"

text \<open>
  A store with the schema \<open>{type: 'object', properties: {a: {type: 'foo'}}}\<close> at address
  2, and the schema of its property \<open>a\<close>, as \<open>getSubSchema\<close> makes it.
\<close>

definition foo_store :: store where
  "foo_store =
     \<lparr>cells = (\<lambda>a. if a = 0 then [(''type'', VStr ''foo'')]
                     else if a = 1 then [(''a'', VRef 0)]
                     else if a = 2 then [(''type'', VStr ''object''), (''properties'', VRef 1)]
                     else []),
      nextFree = 3\<rparr>"

definition foo_property :: "val schema" where
  "foo_property =
     \<lparr>stype = Draft07, openApiVersion = None, sid = SchemaId ''/properties/a'' (Some [''#'']),
      content = VRef 0, rootIds = [SchemaId ''#'' None]\<rparr>"




section \<open>OpenAPI v3 operation synthesis: what the code computes\<close>

text \<open>
  Claim C1 says that the parameter group of a location holds exactly the parameters of
  that location, and that its \<open>required\<close> list holds exactly those of them that are
  required.  \<open>normalizeParameter\<close> computes \<open>filterdParams\<close> but runs \<open>reduce\<close> over
  all of \<open>params\<close>: for the operation with the \<open>path\<close> parameter \<open>id\<close> and the
  \<open>query\<close> parameter \<open>q\<close>, the group synthesized for \<open>path\<close> (the first schema of the
  result) has both \<open>id\<close> and \<open>q\<close> among its properties and in its \<open>required\<close> list,
  whatever \<open>getAbsoluteId\<close> and the resolver are.
\<close>

theorem normalizeParameter_path_group_holds_query_parameter:
  "map_sum id (\<lambda>st. map (\<lambda>s. (sid s, contentOf st s)) (take 1 (results st)))
     (resolveOpenAPIV3SchemaContentObject absId res path_and_query_operation)
   = Inr [(SchemaId (absId (SchemaId ''op'' None) @ ''/pathParameter'') (Some []),
           JObj [(''type'', JStr ''object''),
                 (''properties'',
                    JObj [(''id'', JObj [(''type'', JStr ''string'')]),
                          (''q'', JObj [(''type'', JStr ''string'')])]),
                 (''required'', JArr [JStr ''id'', JStr ''q''])])]"
  by (simp add: resolveOpenAPIV3SchemaContentObject_def path_and_query_operation_def
      normalizeParameter_def reduceStep_def normalizeSchema_def resolveOpenAPIV3Object_def
      withId_def contentOf_def Let_def)

text \<open>
  Claim C3 says that a request body in the media types \<open>application/json\<close> and
  \<open>application/xml\<close> yields two body schemas and two request wrappers, each wrapper with
  a \<open>body\<close> property that references its own body schema.  The two body schemas and
  the two wrappers are produced, with the prefixes \<open>json\<close> and \<open>xml\<close>, but each wrapper
  is a shallow copy of \<open>requestSchema\<close> and the write \<open>rs.content.properties.body\<close>
  goes to the one shared content object: in the returned array the \<open>body\<close> property of
  the \<open>json\<close> wrapper references the \<open>xml\<close> body schema.  The list gives, for each
  returned schema, its id and the \<open>body\<close> property of its content.
\<close>

theorem request_wrappers_share_one_body_reference:
  "map_sum id
     (\<lambda>st. map (\<lambda>s. (sid s, fld (fld (contentOf st s) ''properties'') ''body'')) (results st))
     (resolveOpenAPIV3SchemaContentObject absId res json_and_xml_operation)
   = Inr [(SchemaId (absId (SchemaId ''op'' None) @ ''/jsonRequestBody'') None, JUndefined),
          (SchemaId (absId (SchemaId ''op'' None) @ ''/jsonRequest'') None,
             JObj [(''$ref'', JStr (absId
               (SchemaId (absId (SchemaId ''op'' None) @ ''/xmlRequestBody'') None)))]),
          (SchemaId (absId (SchemaId ''op'' None) @ ''/xmlRequestBody'') None, JUndefined),
          (SchemaId (absId (SchemaId ''op'' None) @ ''/xmlRequest'') None,
             JObj [(''$ref'', JStr (absId
               (SchemaId (absId (SchemaId ''op'' None) @ ''/xmlRequestBody'') None)))])]"
  by (simp add: resolveOpenAPIV3SchemaContentObject_def json_and_xml_operation_def
      bodyStep_def mediaTypeToTypeNamePrefix_def resolveOpenAPIV3Object_def
      withId_def contentOf_def Let_def)

section \<open>Array types: the union of tuples\<close>

lemma intersperse_Cons: "intersperse s (x # xs) = x # concat (map (\<lambda>y. [s, y]) xs)"
  by (induction xs arbitrary: x) auto

lemma slots_eq:
  "0 \<le> i \<Longrightarrow> u \<le> eff \<Longrightarrow>
   tupleSlots len eff u i
   = concat (map (\<lambda>j. (if j > 0 then [RawValue '', ''] else []) @ [spec_slot len eff j]) [i..u - 1])"
proof (induction len eff u i rule: tupleSlots.induct)
  case (1 len eff u i)
  show ?case
  proof (cases "i < u")
    case True
    then have up: "[i..u - 1] = i # [i + 1..u - 1]" by (simp add: upto_rec1)
    have "tupleSlots len eff u (i + 1) = concat (map (\<lambda>j. (if j > 0 then [RawValue '', ''] else []) @ [spec_slot len eff j]) [i + 1..u - 1])"
      using 1 True by simp
    then show ?thesis using True 1(2,3) 
      by (subst tupleSlots.simps) (auto simp: up spec_slot_def)
  next
    case False
    then show ?thesis by (subst tupleSlots.simps) simp
  qed
qed

lemma slots_intersperse:
  "u \<le> eff \<Longrightarrow> tupleSlots len eff u 0 = intersperse (RawValue '', '') (map (spec_slot len eff) [0..u - 1])"
proof (cases "0 < u")
  case True
  assume le: "u \<le> eff"
  have up: "[0..u - 1] = 0 # [1..u - 1]" using True by (simp add: upto_rec1)
  have "\<forall>j \<in> set [1..u - 1]. j > 0" by auto
  then have "concat (map (\<lambda>j. (if j > 0 then [RawValue '', ''] else []) @ [spec_slot len eff j]) [1..u - 1])
     = concat (map (\<lambda>y. [RawValue '', '', y]) (map (spec_slot len eff) [1..u - 1]))"
    by (induction "[1..u - 1]") (auto simp: map_concat comp_def intro!: arg_cong[where f = concat])
  then show ?thesis using slots_eq[of 0 u eff len] le
    by (simp add: up intersperse_Cons)
next
  case False
  then show ?thesis by (subst tupleSlots.simps) simp
qed

lemma concat_intersperse_Cons:
  "ys \<noteq> [] \<Longrightarrow> concat (intersperse s (x # ys)) = x @ s @ concat (intersperse s ys)"
  by (cases ys) auto

lemma union_eq:
  "tupleUnion len eff u = concat (intersperse [RawValue '' | ''] (map (spec_tuple len eff) [u..eff]))"
proof (induction len eff u rule: tupleUnion.induct)
  case (1 len eff u)
  show ?case
  proof (cases "u \<le> eff")
    case le: True
    then have up: "[u..eff] = u # [u + 1..eff]" by (simp add: upto_rec1)
    have ih: "tupleUnion len eff (u + 1) = concat (intersperse [RawValue '' | ''] (map (spec_tuple len eff) [u + 1..eff]))"
      using 1 le by simp
    have tup: "[RawValue ''[''] @ tupleSlots len eff u 0 @ [RawValue '']''] = spec_tuple len eff u"
      using le by (simp add: spec_tuple_def slots_intersperse)
    show ?thesis
    proof (cases "u < eff")
      case True
      then have ne: "map (spec_tuple len eff) [u + 1..eff] \<noteq> []" by simp
      have "tupleUnion len eff u = spec_tuple len eff u @ [RawValue '' | ''] @ tupleUnion len eff (u + 1)"
        using True le tup by (subst tupleUnion.simps) simp
      then show ?thesis unfolding ih up using ne by (simp add: concat_intersperse_Cons)
    next
      case False
      then have e: "[u + 1..eff] = []" using le by simp
      have "tupleUnion len eff u = spec_tuple len eff u @ tupleUnion len eff (u + 1)"
        using False le tup by (subst tupleUnion.simps) simp
      then show ?thesis unfolding ih up by (simp add: e)
    qed
  next
    case False
    then show ?thesis by (subst tupleUnion.simps) simp
  qed
qed

text \<open>
  Claim C2, as amended.  For an array schema whose \<open>items\<close> is a list, the emitter
  writes the tuples of the specification: one tuple for each length from \<open>minItems\<close>
  (or \<open>1\<close>) up to \<open>effectiveMax = 1 + max(minItems or 0, items.length)\<close>, joined by
  the union separator, slot \<open>i\<close> being the \<open>i\<close>-th item's type below
  \<open>items.length\<close>, \<open>any\<close> at \<open>effectiveMax - 1\<close> and \<open>Object\<close> elsewhere.  The one
  exception is the guard of the code: an empty \<open>items\<close> list without \<open>minItems\<close>
  is written as \<open>any[]\<close>.
\<close>

theorem generateArrayTypeProperty_tuple_union:
  "generateArrayTypeProperty (SchemaList len) minItems terminate
   = (if len = 0 \<and> minItems = None then [StringTypeName ''any[]'' terminate None]
      else spec_tuple_union len minItems terminate)"
  unfolding generateArrayTypeProperty_def spec_tuple_union_def Let_def union_eq
  by (cases minItems) simp_all

text \<open>
  The example of the specification: \<open>items: [X, Y]\<close> with \<open>minItems: 1\<close> gives the
  union of a 1-, a 2- and a 3-element tuple whose third slot is \<open>any\<close>.
\<close>

theorem generateArrayTypeProperty_tuple_union_witness:
  "generateArrayTypeProperty (SchemaList 2) (Some 1) True =
     [RawValue ''['', ItemType 0, RawValue '']'', RawValue '' | '',
      RawValue ''['', ItemType 0, RawValue '', '', ItemType 1, RawValue '']'', RawValue '' | '',
      RawValue ''['', ItemType 0, RawValue '', '', ItemType 1, RawValue '', '',
        StringTypeName ''any'' False (Some False), RawValue '']'',
      StringTypeName [] True None]"
proof -
  have "spec_tuple_union 2 (Some 1) True =
     [RawValue ''['', ItemType 0, RawValue '']'', RawValue '' | '',
      RawValue ''['', ItemType 0, RawValue '', '', ItemType 1, RawValue '']'', RawValue '' | '',
      RawValue ''['', ItemType 0, RawValue '', '', ItemType 1, RawValue '', '',
        StringTypeName ''any'' False (Some False), RawValue '']'',
      StringTypeName [] True None]"
    by code_simp
  then show ?thesis
    using generateArrayTypeProperty_tuple_union [of 2 "Some 1" True] by simp
qed

text \<open>
  Claim C2 as stated fails for \<open>items: []\<close> without \<open>minItems\<close>: the claim gives
  \<open>effectiveMax = 1\<close> and the single tuple \<open>[any]\<close>, the code writes \<open>any[]\<close>.
\<close>

theorem empty_item_list_counterexample:
  "generateArrayTypeProperty (SchemaList 0) None True = [StringTypeName ''any[]'' True None]
   \<and> spec_tuple_union 0 None True =
       [RawValue ''['', StringTypeName ''any'' False (Some False), RawValue '']'',
        StringTypeName [] True None]"
  by code_simp

section \<open>The tree walk\<close>

lemma keys_sort_key: "distinct (map fst m) \<Longrightarrow> map fst (sort_key fst m) = sort (map fst m)"
proof (rule sorted_distinct_set_unique)
  assume d: "distinct (map fst m)"
  show "sorted (map fst (sort_key fst m))" by (rule sorted_sort_key)
  show "distinct (map fst (sort_key fst m))"
    by (metis card_distinct d distinct_card distinct_map length_sort set_sort)
  show "sorted (sort (map fst m))" by simp
  show "distinct (sort (map fst m))" using d by simp
  show "set (map fst (sort_key fst m)) = set (sort (map fst m))" by simp
qed

lemma entries_by_keys:
  "distinct (map fst xs) \<Longrightarrow> map (\<lambda>k. (k, the (map_of xs k))) (map fst xs) = xs"
proof (induction xs)
  case Nil
  then show ?case by simp
next
  case (Cons e xs)
  have "map (\<lambda>k. (k, the (map_of (e # xs) k))) (map fst xs) = map (\<lambda>k. (k, the (map_of xs k))) (map fst xs)"
    using Cons.prems by (intro map_cong refl) (auto simp: rev_image_eqI)
  moreover have "map (\<lambda>k. (k, the (map_of xs k))) (map fst xs) = xs"
    using Cons by simp
  ultimately have "map (\<lambda>k. (k, the (map_of (e # xs) k))) (map fst xs) = xs" by (rule trans)
  moreover have "map (\<lambda>k. (k, the (map_of (e # xs) k))) (map fst (e # xs))
    = (fst e, the (map_of (e # xs) (fst e))) # map (\<lambda>k. (k, the (map_of (e # xs) k))) (map fst xs)"
    by (simp only: list.map)
  ultimately show ?case by (cases e) (simp only: , simp)
qed

lemma fst_canonical_entry: "fst \<circ> (\<lambda>(k, v). (k, canonical v)) = fst"
  by (auto simp: fun_eq_iff)

lemma canonical_entries:
  assumes d: "distinct (map fst m)"
  shows "sort_key fst (map (\<lambda>(k, v). (k, canonical v)) m)
         = map (\<lambda>k. (k, canonical (the (map_of m k)))) (sort (map fst m))"
proof -
  let ?g = "\<lambda>(k, v). (k, canonical v)"
  let ?E = "sort_key fst (map ?g m)"
  have fg: "map fst (map ?g m) = map fst m" by (simp add: fst_canonical_entry)
  have dg: "distinct (map fst (map ?g m))" using d unfolding fg .
  have keys: "map fst ?E = sort (map fst m)" using keys_sort_key[OF dg] unfolding fg .
  have dE: "distinct (map fst ?E)" using keys d by simp
  have mo: "map_of ?E = map_of (map ?g m)"
    using dE dg by (subst map_of_inject_set) auto
  have mm: "map_of (map ?g m) k = map_option canonical (map_of m k)" for k
    by (simp add: map_of_map)
  have "?E = map (\<lambda>k. (k, the (map_of ?E k))) (map fst ?E)"
    using entries_by_keys[OF dE] by simp
  also have "\<dots> = map (\<lambda>k. (k, the (map_of ?E k))) (sort (map fst m))"
    using keys by simp
  also have "\<dots> = map (\<lambda>k. (k, canonical (the (map_of m k)))) (sort (map fst m))"
  proof (intro map_cong refl)
    fix k assume "k \<in> set (sort (map fst m))"
    then obtain v where "map_of m k = Some v"
      by (metis (no_types) set_sort list.set_map option.exhaust map_of_eq_None_iff)
    then show "(k, the (map_of ?E k)) = (k, canonical (the (map_of m k)))"
      using mo mm by simp
  qed
  finally show ?thesis .
qed

lemma walk_traverse:
  "distinct_keys n \<Longrightarrow>
   walk (entries n) = concat (map (\<lambda>(k, v). traverse k v) (entries (canonical n)))"
proof (induction n)
  case (Node mk m)
  have d: "distinct (map fst m)" using Node.prems by simp
  have step: "(case map_of m k of
           None \<Rightarrow> []
         | Some value \<Rightarrow>
             (case typeMarker value of
                Some schema \<Rightarrow> [WalkSchema schema, DeleteTypeMarker]
              | None \<Rightarrow> [])
             @ (if length (map fst (entries value)) > 0
                then [StartNest k] @ walk (entries value) @ [EndNest]
                else [])) = traverse k (canonical (the (map_of m k)))"
    if "k \<in> set (sort (remdups (map fst m)))" for k
  proof -
    from that obtain v where v: "map_of m k = Some v"
      by (metis (no_types) set_sort set_remdups list.set_map option.exhaust map_of_eq_None_iff)
    then have mem: "(k, v) \<in> set m" by (rule map_of_SomeD)
    obtain mk' es where ve: "v = Node mk' es" by (cases v)
    have dv: "distinct_keys v" using Node.prems mem by (auto simp: list_all_iff)
    have ih: "walk (entries v) = concat (map (\<lambda>(k, v). traverse k v) (entries (canonical v)))"
      using Node.IH[of "(k, v)" v] mem dv by simp
    have ne: "(sort_key fst (map (\<lambda>(k, v). (k, canonical v)) es) = []) = (es = [])"
      by (metis length_sort length_map length_0_conv)
    show ?thesis using v ih by (simp add: ve ne)
  qed
  have "walk m = concat (map (\<lambda>k. traverse k (canonical (the (map_of m k)))) (sort (remdups (map fst m))))"
    by (subst walk.simps) (intro arg_cong[where f = concat] map_cong refl step)
  then show ?case using d by (simp add: canonical_entries distinct_remdups_id comp_def)
qed

lemma ascending_canonical: "distinct_keys n \<Longrightarrow> ascending (canonical n)"
proof (induction n)
  case (Node mk m)
  have d: "distinct (map fst m)" using Node.prems by simp
  have fg: "map fst (map (\<lambda>(k, v). (k, canonical v)) m) = map fst m" by (simp add: fst_canonical_entry)
  have "distinct (map fst (map (\<lambda>(k, v). (k, canonical v)) m))" using d unfolding fg .
  from keys_sort_key[OF this]
  have "map fst (sort_key fst (map (\<lambda>(k, v). (k, canonical v)) m)) = sort (map fst m)"
    unfolding fg .
  then have s: "sorted_wrt (<) (map fst (sort_key fst (map (\<lambda>(k, v). (k, canonical v)) m)))"
    using d by (simp add: strict_sorted_iff)
  have "list_all (\<lambda>(k, v). ascending v) (sort_key fst (map (\<lambda>(k, v). (k, canonical v)) m))"
    using Node by (fastforce simp: list_all_iff)
  then show ?case using s by simp
qed


text \<open>
  Claim C5.  A namespace map is the list of entries of a node \<open>n\<close>.  The calls of
  \<open>walk\<close> on it are the calls of the plain traversal of the tree whose every level
  is listed in strictly ascending key order: at every level the keys are visited in
  sorted order.  So the calls do not depend on the order in which the keys were inserted:
  two maps with the same bindings at every level give the same sequence of calls, and
  with it the same text, which is what two runs over the same registered schemas build.
\<close>

theorem walk_visits_keys_in_sorted_order:
  assumes "distinct_keys n" and "distinct_keys n'" and "canonical n' = canonical n"
  shows "ascending (canonical n)
         \<and> walk (entries n) = concat (map (\<lambda>(k, v). traverse k v) (entries (canonical n)))
         \<and> walk (entries n') = walk (entries n)"
  using assms by (simp add: walk_traverse ascending_canonical)

theorem walk_visits_keys_in_sorted_order_witness:
  "distinct_keys unsorted_namespace_map \<and> distinct_keys sorted_namespace_map \<and> canonical sorted_namespace_map = canonical unsorted_namespace_map
   \<and> walk (entries sorted_namespace_map) = walk (entries unsorted_namespace_map)
   \<and> walk (entries unsorted_namespace_map)
       = [StartNest ''a'', WalkSchema 3, DeleteTypeMarker, WalkSchema 2, DeleteTypeMarker, EndNest,
          WalkSchema 1, DeleteTypeMarker]"
proof -
  have a: "distinct_keys unsorted_namespace_map" by code_simp
  have b: "distinct_keys sorted_namespace_map" by code_simp
  have c: "canonical sorted_namespace_map = canonical unsorted_namespace_map" by code_simp
  have d: "concat (map (\<lambda>(k, v). traverse k v) (entries (canonical unsorted_namespace_map)))
       = [StartNest ''a'', WalkSchema 3, DeleteTypeMarker, WalkSchema 2, DeleteTypeMarker, EndNest,
          WalkSchema 1, DeleteTypeMarker]" by code_simp
  show ?thesis using walk_visits_keys_in_sorted_order [OF a b c] a b c d by simp
qed

section \<open>Discovery over the paths object\<close>

lemma map_of_filter_key: "P k \<Longrightarrow> map_of (filter (\<lambda>(k, v). P k) xs) k = map_of xs k"
  by (induction xs) auto

lemma assign_filter_key:
  "P k \<Longrightarrow> assign (filter (\<lambda>(k, v). P k) xs) k v = filter (\<lambda>(k, v). P k) (assign xs k v)"
  by (induction xs) auto

lemma fld_onlyMethods: "m \<in> set methods \<Longrightarrow> fld (onlyMethods item) m = fld item m"
  by (cases item) (simp_all add: onlyMethods_def map_of_filter_key)

lemma walkOperations_onlyMethods:
  "set (map fst ops) \<subseteq> set methods \<Longrightarrow>
   walkOperations absId schema path paths parentIds ops (onlyMethods item)
   = map_sum id (map_prod id onlyMethods)
       (walkOperations absId schema path paths parentIds ops item)"
proof (induction ops arbitrary: item)
  case Nil
  then show ?case by simp
next
  case (Cons mo ops)
  obtain name op where mo: "mo = (name, op)" by (cases mo)
  have m: "name \<in> set methods" using Cons.prems mo by simp
  have sub: "set (map fst ops) \<subseteq> set methods" using Cons.prems by simp
  have wb: "(case op of JObj kvs \<Rightarrow> JObj (assign (ownProperties (onlyMethods item)) name op1)
                 | _ \<Rightarrow> onlyMethods item)
          = onlyMethods (case op of JObj kvs \<Rightarrow> JObj (assign (ownProperties item) name op1)
                 | _ \<Rightarrow> item)" for op1
    using m by (cases op; cases item) (simp_all add: onlyMethods_def assign_filter_key)
  show ?case
    unfolding mo
    by (simp add: wb Cons.IH[OF sub] split: sum.splits prod.splits)
qed


lemma onlyMethods_eq_null [simp]:
  "(onlyMethods item = JNull) = (item = JNull)" "(onlyMethods item = JUndefined) = (item = JUndefined)"
  by (cases item; simp add: onlyMethods_def)+

lemma fld_reduced:
  "fld (JObj (map (\<lambda>(path, pathItem). (path, onlyMethods pathItem)) kvs)) path
   = onlyMethods (fld (JObj kvs) path)"
proof -
  have "onlyMethods JUndefined = JUndefined" by (simp add: onlyMethods_def)
  then show ?thesis by (simp add: map_of_map split: option.splits del: onlyMethods_eq_null)
qed

lemma assign_reduced:
  "assign (map (\<lambda>(path, pathItem). (path, onlyMethods pathItem)) kvs) path (onlyMethods item)
   = map (\<lambda>(path, pathItem). (path, onlyMethods pathItem)) (assign kvs path item)"
  by (induction kvs) auto

lemma operations_reduced:
  "map (\<lambda>method. (method, fld (onlyMethods item) method)) methods
   = map (\<lambda>method. (method, fld item method)) methods"
  by (intro map_cong refl) (simp add: fld_onlyMethods)

lemma walkPathKeys_onlyMethods:
  "walkPathKeys absId schema paths parentIds keys
     (map (\<lambda>(path, pathItem). (path, onlyMethods pathItem)) kvs)
   = map_sum id (map_prod id (map (\<lambda>(path, pathItem). (path, onlyMethods pathItem))))
       (walkPathKeys absId schema paths parentIds keys kvs)"
proof (induction keys arbitrary: kvs)
  case Nil
  then show ?case by simp
next
  case (Cons path keys)
  have ops: "set (map fst (map (\<lambda>method. (method, fld (fld (JObj kvs) path) method)) methods))
               \<subseteq> set methods"
    by auto
  show ?case
    by (simp add: fld_reduced operations_reduced walkOperations_onlyMethods[OF ops]
          assign_reduced Cons.IH Let_def del: fld.simps
          split: sum.splits prod.splits)
qed

text \<open>
  Claim C10.  What \<open>walkOpenAPIV3Paths\<close> finds (the sequence of \<open>onFoundSchema\<close>
  and \<open>onFoundReference\<close> calls, or the error) is what it finds on the paths object
  from which every entry of every path item under a key other than \<open>get\<close>,
  \<open>post\<close>, \<open>put\<close>, \<open>patch\<close>, \<open>delete\<close> and \<open>head\<close> has been erased: an
  operation under \<open>options\<close> or \<open>trace\<close> is never visited, found or registered.
\<close>

theorem walk_finds_only_the_six_methods:
  "map_sum id fst (walkOpenAPIV3Paths absId schema pathObject paths parentIds)
   = map_sum id fst (walkOpenAPIV3Paths absId schema (onlyMethodsOfPaths pathObject) paths parentIds)"
proof (cases pathObject)
  case (JObj kvs)
  have k: "fst \<circ> (\<lambda>(path, pathItem). (path, onlyMethods pathItem)) = fst"
    by (auto simp: fun_eq_iff)
  show ?thesis
    unfolding JObj walkOpenAPIV3Paths_def onlyMethodsOfPaths_def
    by (simp add: k walkPathKeys_onlyMethods split: sum.splits prod.splits)
qed (simp_all add: walkOpenAPIV3Paths_def onlyMethodsOfPaths_def)

text \<open>
  For the path item with a \<open>get\<close> and an \<open>options\<close> operation, only the \<open>get\<close>
  operation is found, whatever \<open>getAbsoluteId\<close> is.
\<close>

theorem walk_finds_only_the_six_methods_witness:
  "\<forall>absId.
     map_sum id fst (walkOpenAPIV3Paths absId openapi_document get_and_options_paths [''#'', ''paths''] [])
     = Inr [FoundSchema
              \<lparr>stype = Draft07, openApiVersion = None, sid = SchemaId ''listPets'' (Some []),
               content = OperationContent
                 (JObj [(''$id'', JStr ''listPets''),
                        (''namespaces'', JArr [JStr ''$'', JStr ''$'', JStr ''pets'', JStr ''get''])]),
               rootIds = [SchemaId ''doc'' None]\<rparr>]"
proof
  fix absId
  have "map_sum id fst
          (walkOpenAPIV3Paths absId openapi_document (onlyMethodsOfPaths get_and_options_paths)
             [''#'', ''paths''] [])
        = Inr [FoundSchema
              \<lparr>stype = Draft07, openApiVersion = None, sid = SchemaId ''listPets'' (Some []),
               content = OperationContent
                 (JObj [(''$id'', JStr ''listPets''),
                        (''namespaces'', JArr [JStr ''$'', JStr ''$'', JStr ''pets'', JStr ''get''])]),
               rootIds = [SchemaId ''doc'' None]\<rparr>]"
    by (simp add: walkOpenAPIV3Paths_def onlyMethodsOfPaths_def onlyMethods_def
          get_and_options_paths_def openapi_document_def methods_def
          walkOpenAPIV3Operation_def findId_def getId_def getIdPropertyName_def
          segmentName_def Let_def)
  then show "map_sum id fst
          (walkOpenAPIV3Paths absId openapi_document get_and_options_paths [''#'', ''paths''] [])
        = Inr [FoundSchema
              \<lparr>stype = Draft07, openApiVersion = None, sid = SchemaId ''listPets'' (Some []),
               content = OperationContent
                 (JObj [(''$id'', JStr ''listPets''),
                        (''namespaces'', JArr [JStr ''$'', JStr ''$'', JStr ''pets'', JStr ''get''])]),
               rootIds = [SchemaId ''doc'' None]\<rparr>]"
    using walk_finds_only_the_six_methods
            [of absId openapi_document get_and_options_paths "[''#'', ''paths'']" "[]"]
    by simp
qed

section \<open>Normalization\<close>

text \<open>
  Claim C7.  When the content that \<open>normalizeContent\<close> works on (the content of the
  schema, or of the sub-schema at the pointer) is \<open>true\<close>, the call returns, for every
  bound of at least one call, a schema whose content is a new object that reads as
  \<open>{}\<close>; when it is \<open>false\<close>, one that reads as \<open>{not: {}}\<close>.  No object that
  existed before the call is changed.
\<close>

theorem normalizeContent_boolean:
  assumes "(case pointer of None \<Rightarrow> Returned schema | Some p \<Rightarrow> getSubSchema ev schema p st) = Returned sub"
    and "content sub = VBool b"
  shows "\<exists>c st'. normalizeContent (Suc n) ev schema pointer st = Returned (sub\<lparr>content := c\<rparr>, st')
           \<and> view (Suc (Suc d)) st' c = (if b then JObj [] else JObj [(''not'', JObj [])])
           \<and> (\<forall>a < nextFree st. cells st' a = cells st a)"
proof (cases b)
  case True
  let ?st = "st\<lparr>cells := (cells st)(nextFree st := []), nextFree := Suc (nextFree st)\<rparr>"
  have "normalizeContent (Suc n) ev schema pointer st = Returned (sub\<lparr>content := VRef (nextFree st)\<rparr>, ?st)"
    using assms True by (simp add: bind_def alloc_def)
  moreover have "view (Suc (Suc d)) ?st (VRef (nextFree st)) = JObj []" by simp
  moreover have "\<forall>a < nextFree st. cells ?st a = cells st a" by simp
  ultimately show ?thesis using True
    by (intro exI[of _ "VRef (nextFree st)"] exI[of _ ?st]) simp
next
  case False
  let ?st = "st\<lparr>cells := (cells st)(nextFree st := [],
                 Suc (nextFree st) := [(''not'', VRef (nextFree st))]),
               nextFree := Suc (Suc (nextFree st))\<rparr>"
  have "normalizeContent (Suc n) ev schema pointer st
          = Returned (sub\<lparr>content := VRef (Suc (nextFree st))\<rparr>, ?st)"
    using assms False by (simp add: bind_def alloc_def)
  moreover have "view (Suc (Suc d)) ?st (VRef (Suc (nextFree st))) = JObj [(''not'', JObj [])]" by simp
  moreover have "\<forall>a < nextFree st. cells ?st a = cells st a" by simp
  ultimately show ?thesis using False
    by (intro exI[of _ "VRef (Suc (nextFree st))"] exI[of _ ?st]) simp
qed

theorem normalizeContent_boolean_witness:
  "\<forall>ev. (case None of None \<Rightarrow> Returned true_schema | Some p \<Rightarrow> getSubSchema ev true_schema p emptyStore)
          = Returned true_schema
     \<and> content true_schema = VBool True
     \<and> (\<exists>c st'. normalizeContent (Suc 0) ev true_schema None emptyStore = Returned (true_schema\<lparr>content := c\<rparr>, st')
           \<and> view (Suc (Suc 0)) st' c = JObj [])"
proof
  fix ev
  have a: "(case None of None \<Rightarrow> Returned true_schema | Some p \<Rightarrow> getSubSchema ev true_schema p emptyStore)
          = Returned true_schema" by simp
  have b: "content true_schema = VBool True" by (simp add: true_schema_def)
  from normalizeContent_boolean [OF a b, of 0 0]
  show "(case None of None \<Rightarrow> Returned true_schema | Some p \<Rightarrow> getSubSchema ev true_schema p emptyStore)
          = Returned true_schema
     \<and> content true_schema = VBool True
     \<and> (\<exists>c st'. normalizeContent (Suc 0) ev true_schema None emptyStore = Returned (true_schema\<lparr>content := c\<rparr>, st')
           \<and> view (Suc (Suc 0)) st' c = JObj [])"
    using a b by auto
qed

lemma map_of_setKey: "map_of (setKey ob k x) k' = (if k' = k then Some x else map_of ob k')"
  by (induction ob) auto

lemma getProp_setProp:
  "getProp (setProp a k x st) (VRef b) k' = (if a = b \<and> k' = k then x else getProp st (VRef b) k')"
  by (simp add: getProp_def setProp_def map_of_setKey)

lemma set_distinctFirst: "set (distinctFirst xs) = set xs"
  by (induction xs rule: distinctFirst.induct) auto

lemma distinct_distinctFirst: "distinct (distinctFirst xs)"
  by (induction xs rule: distinctFirst.induct) (auto simp: set_distinctFirst)

lemma inferType_array:
  "getProp st (VRef a) ''type'' = VArr ts \<Longrightarrow>
   getProp (inferType a st) (VRef a) ''type''
   = (if length (reduceTypes ts) = 1 then reduceTypes ts ! 0 else VArr (reduceTypes ts))"
  by (simp add: inferType_def Let_def getProp_setProp)

lemma inferType_object:
  "getProp st (VRef a) ''type'' = VUndefined \<Longrightarrow>
   truthyV (getProp st (VRef a) ''properties'') \<or> truthyV (getProp st (VRef a) ''additionalProperties'') \<Longrightarrow>
   getProp (inferType a st) (VRef a) ''type'' = VStr ''object''"
  by (simp add: inferType_def Let_def getProp_setProp)

text \<open>
  Claim C8, as amended.  Let the content that \<open>normalizeContent\<close> works on be the
  object at \<open>a\<close>, and let the folding of its \<open>allOf\<close> members (if it has any) have
  returned.  Then the call returns, and of the object as it is after the folding:
  a type array is replaced by the list of its distinct entries, or by the entry itself
  when one remains; and a missing type becomes \<open>object\<close> when \<open>properties\<close> or
  \<open>additionalProperties\<close> is truthy.  An \<open>additionalProperties\<close> of \<open>false\<close> is not
  truthy.
\<close>

theorem normalizeContent_infers_type:
  assumes "(case pointer of None \<Rightarrow> Returned schema | Some p \<Rightarrow> getSubSchema ev schema p st) = Returned sub"
    and "content sub = VRef a"
    and "foldAllOf (\<lambda>ref. normalizeContent n ev ref None) ev a st = Returned st1"
  shows "normalizeContent (Suc n) ev schema pointer st = Returned (sub, inferType a st1)
     \<and> (\<forall>ts. getProp st1 (VRef a) ''type'' = VArr ts \<longrightarrow>
            getProp (inferType a st1) (VRef a) ''type''
              = (if length (reduceTypes ts) = 1 then reduceTypes ts ! 0 else VArr (reduceTypes ts))
            \<and> distinct (reduceTypes ts) \<and> set (reduceTypes ts) = set ts)
     \<and> (getProp st1 (VRef a) ''type'' = VUndefined
          \<and> (truthyV (getProp st1 (VRef a) ''properties'')
               \<or> truthyV (getProp st1 (VRef a) ''additionalProperties''))
          \<longrightarrow> getProp (inferType a st1) (VRef a) ''type'' = VStr ''object'')"
proof -
  have "normalizeContent (Suc n) ev schema pointer st = Returned (sub, inferType a st1)"
    using assms by (simp add: bind_def)
  then show ?thesis
    by (simp add: inferType_array inferType_object reduceTypes_def set_distinctFirst
          distinct_distinctFirst)
qed

text \<open>\<open>type: ['string', 'string']\<close> becomes \<open>type: 'string'\<close>.\<close>

theorem normalizeContent_infers_type_witness:
  "(case None of None \<Rightarrow> Returned (schemaAt (VRef 0))
      | Some p \<Rightarrow> getSubSchema plain_env (schemaAt (VRef 0)) p string_twice_store)
     = Returned (schemaAt (VRef 0))
   \<and> content (schemaAt (VRef 0)) = VRef 0
   \<and> foldAllOf (\<lambda>ref. normalizeContent 0 plain_env ref None) plain_env 0 string_twice_store
       = Returned string_twice_store
   \<and> getProp string_twice_store (VRef 0) ''type'' = VArr [VStr ''string'', VStr ''string'']
   \<and> normalizeContent (Suc 0) plain_env (schemaAt (VRef 0)) None string_twice_store
       = Returned (schemaAt (VRef 0), inferType 0 string_twice_store)
   \<and> getProp (inferType 0 string_twice_store) (VRef 0) ''type'' = VStr ''string''"
proof -
  have a: "(case None of None \<Rightarrow> Returned (schemaAt (VRef 0))
      | Some p \<Rightarrow> getSubSchema plain_env (schemaAt (VRef 0)) p string_twice_store)
     = Returned (schemaAt (VRef 0))" by simp
  have b: "content (schemaAt (VRef 0)) = VRef 0" by (simp add: schemaAt_def)
  have c: "foldAllOf (\<lambda>ref. normalizeContent 0 plain_env ref None) plain_env 0 string_twice_store
       = Returned string_twice_store"
    by (simp add: foldAllOf_def getProp_def string_twice_store_def)
  have d: "getProp string_twice_store (VRef 0) ''type'' = VArr [VStr ''string'', VStr ''string'']"
    by (simp add: getProp_def string_twice_store_def)
  have e: "reduceTypes [VStr ''string'', VStr ''string''] = [VStr ''string'']"
    by (simp add: reduceTypes_def)
  from normalizeContent_infers_type [OF a b c] show ?thesis
    using a b c d e by simp
qed

text \<open>
  Claim C8 as stated fails for the content \<open>{additionalProperties: false}\<close>: it has
  \<open>additionalProperties\<close> and no type, and \<open>normalizeContent\<close> returns it without a type.
\<close>

theorem additionalProperties_false_counterexample:
  "normalized (JObj [(''additionalProperties'', JBool False)])
   = Returned (JObj [(''additionalProperties'', JBool False)])"
  by code_simp


text \<open>
  The example of the specification, with \<open>utils.mergeSchema\<close> as the specification
  describes it: \<open>{properties: {a}}\<close> and \<open>{properties: {b}, required: ['b']}\<close> are
  folded into \<open>properties: {a, b}\<close> and \<open>required: ['b']\<close>.
\<close>

lemma allOf_example_is_folded:
  "normalized allOf_example
     = Returned (JObj [(''properties'', JObj [(''a'', JObj []), (''b'', JObj [])]),
                       (''required'', JArr [JStr ''b'']), (''type'', JStr ''object'')])"
  by code_simp

section \<open>An error raised in a method of the emitter ends the run\<close>

lemma forEach_append:
  "forEach f (xs @ ys) s = bind (forEach f xs s) (forEach f ys)"
  by (induction xs arbitrary: s) (auto simp add: bind_def split: outcome.splits)

lemma forEach_raises:
  assumes "forEach f before s = Returned s1" and "f x s1 = Raised e"
  shows "forEach f (before @ x # after) s = Raised e"
  using assms by (simp add: forEach_append bind_def)

lemma calls_raises:
  assumes "calls n ev t em t1 em1" and "emit n ev t1 em1 = Raised e"
  shows "emit (Suc n) ev t em = Raised e"
  using assms
proof (induction rule: calls.induct)
  case (properties_additional em baseSchema em1 schema em2)
  then show ?case
    by (simp add: generateProperties_def additionalPropertiesPart_def bind_def)
next
  case (properties_property baseSchema em em1 before propertyName after em2 schema em3 em4 em5 em6)
  have "propertyStep (emit n ev) n ev baseSchema propertyName em2 = Raised e"
    using properties_property by (simp add: propertyStep_def bind_def)
  then have "forEach (propertyStep (emit n ev) n ev baseSchema) (before @ propertyName # after) em1
               = Raised e"
    by (rule forEach_raises[OF properties_property.hyps(4)])
  then show ?case
    using properties_property by (simp add: generateProperties_def bind_def)
next
  case (typeProperty_anyOf em schema terminate)
  then show ?case
    by (auto simp add: generateTypeProperty_def bind_def)
next
  case (typeProperty_oneOf em schema terminate em1)
  then show ?case
    by (auto simp add: generateTypeProperty_def bind_def)
next
  case (typeProperty_type em schema terminate)
  then show ?case
    by (simp add: generateTypeProperty_def)
next
  case (arrayedType_member xs before c index after baseSchema terminate em em1 path em2 schema em3)
  have "(\<lambda>(c, index). arrayedTypeStep (emit n ev) n ev baseSchema path index) (c, index) em2 = Raised e"
    using arrayedType_member by (simp add: arrayedTypeStep_def bind_def)
  then have "forEach (\<lambda>(c, index). arrayedTypeStep (emit n ev) n ev baseSchema path index)
               (before @ (c, index) # after) em1 = Raised e"
    by (rule forEach_raises[OF arrayedType_member.hyps(3)])
  then show ?case
    using arrayedType_member
    by (simp add: generateArrayedType_def outputArrayedType_def bind_def)
next
  case (arrayTypeProperty_items em schema terminate before after em1 sub em2)
  have "arrayCallStep (emit n ev) n ev schema ItemsType em1 = Raised e"
    using arrayTypeProperty_items by (simp add: arrayCallStep_def bind_def)
  then have "forEach (arrayCallStep (emit n ev) n ev schema) (before @ ItemsType # after) em = Raised e"
    by (rule forEach_raises[OF arrayTypeProperty_items.hyps(2)])
  then show ?case
    using arrayTypeProperty_items by (simp add: emitArrayTypeProperty_def)
next
  case (arrayTypeProperty_item em schema terminate before i after em1 ty em2)
  have "arrayCallStep (emit n ev) n ev schema (ItemType i) em1 = Raised e"
    using arrayTypeProperty_item by (simp add: arrayCallStep_def bind_def)
  then have "forEach (arrayCallStep (emit n ev) n ev schema) (before @ ItemType i # after) em = Raised e"
    by (rule forEach_raises[OF arrayTypeProperty_item.hyps(2)])
  then show ?case
    using arrayTypeProperty_item by (simp add: emitArrayTypeProperty_def)
next
  case (type_name em schema s terminate outputOptional)
  then show ?case
    by (simp add: generateType_def)
next
  case (type_again em schema ts a terminate outputOptional)
  then show ?case
    by (simp add: generateType_def Let_def)
next
  case (type_list em schema ts before t index after terminate em1 em2 outputOptional)
  have "(\<lambda>(t, index). emit n ev (GenerateTypeName schema t False False)) (t, index) em2 = Raised e"
    using type_list by simp
  then have "forEach (\<lambda>(t, index). emit n ev (GenerateTypeName schema t False False))
               (before @ (t, index) # after) em1 = Raised e"
    by (rule forEach_raises[OF type_list.hyps(5)])
  then show ?case
    using type_list by (simp add: generateType_def Let_def outputArrayedType_def bind_def)
next
  case (typeName_object em schema em1 terminate outputOptional)
  then show ?case
    by (simp add: generateTypeName_def bind_def)
next
  case (typeName_array em schema terminate outputOptional)
  then show ?case
    by (simp add: generateTypeName_def)
qed

lemma reaches_raises:
  assumes "reaches ev n t em m t1 em1" and "emit m ev t1 em1 = Raised e"
  shows "emit n ev t em = Raised e"
  using assms
proof (induction rule: reaches.induct)
  case (reaches_here n t em)
  then show ?case by simp
next
  case (reaches_call n t em t1 em1 m t2 em2)
  then show ?case using calls_raises by blast
qed

lemma walkSchemaCalls_raises:
  assumes "walkSchemaCalls n ev schema em t em1" and "emit n ev t em1 = Raised e"
  shows "walkSchema n ev schema em = Raised e"
  using assms
proof (induction rule: walkSchemaCalls.induct)
  case (typeModel schema em normalized em1 em2 em3 em4)
  then show ?case
    by (auto simp add: walkSchema_def generateTypeModel_def bind_def out_def split: if_splits)
next
  case (typeCollection schema em normalized em1 em2 em3)
  then show ?case
    by (auto simp add: walkSchema_def generateTypeCollection_def bind_def out_def)
next
  case (declareType schema em normalized em1 em2 em3)
  then show ?case
    by (auto simp add: walkSchema_def generateDeclareType_def bind_def out_def)
qed

text \<open>
  The run for the schema \<open>{type: 'object', properties: {a: {type: 'foo'}}}\<close> comes to
  \<open>generateTypeName\<close> for \<open>foo\<close> through \<open>generateProperties\<close>,
  \<open>generateTypeProperty\<close> and \<open>generateType\<close>.
\<close>

lemma foo_run_reaches:
  "generateReaches (Suc (Suc (Suc (Suc 0)))) plain_env [(''Root'', Node (Some (schemaAt (VRef 2))) [])] foo_store (Suc 0)
     (GenerateTypeName foo_property (VStr ''foo'') True True)
     \<lparr>objects = foo_store,
        written = [Start, OutputComments (schemaAt (VRef 2)), StartInterfaceNest (SchemaId ''#'' None),
                   OutputComments foo_property, OutputPropertyAttribute foo_property,
                   OutputPropertyName foo_property ''a'' VUndefined],
        currentSchema = Some (schemaAt (VRef 2))\<rparr>"
proof -
  let ?root = "schemaAt (VRef 2)"
  let ?em0 = "\<lparr>objects = foo_store, written = [Start], currentSchema = None\<rparr>"
  let ?em2 = "\<lparr>objects = foo_store, written = [Start, OutputComments ?root],
               currentSchema = Some ?root\<rparr>"
  let ?em3 = "\<lparr>objects = foo_store,
               written = [Start, OutputComments ?root, StartInterfaceNest (SchemaId ''#'' None)],
               currentSchema = Some ?root\<rparr>"
  let ?em6 = "\<lparr>objects = foo_store,
        written = [Start, OutputComments ?root, StartInterfaceNest (SchemaId ''#'' None),
                   OutputComments foo_property, OutputPropertyAttribute foo_property,
                   OutputPropertyName foo_property ''a'' VUndefined],
        currentSchema = Some ?root\<rparr>"
  have w: "walk [(''Root'', Node (Some ?root) [])] = [] @ WalkSchema ?root # [DeleteTypeMarker]"
    by code_simp
  have p: "parse plain_env ''/properties/a'' = [''properties'', ''a'']"
    by code_simp
  have n0: "normalizeIn (Suc (Suc (Suc (Suc 0)))) plain_env ?root None ?em0 = Returned (?root, ?em0)"
    by (simp add: normalizeIn_def schemaAt_def bind_def foldAllOf_def inferType_def getProp_def
          foo_store_def)
  have n1: "normalizeIn (Suc (Suc (Suc 0))) plain_env ?root (Some (''/properties/'' @ ''a'')) ?em3
              = Returned (foo_property, ?em3)"
    by (simp add: normalizeIn_def schemaAt_def bind_def foldAllOf_def inferType_def getProp_def
          foo_store_def getSubSchema_def p foo_property_def getIdPropertyName_def
          plain_env_def[THEN arg_cong, of getAbsoluteId] plain_env_def)
  have c0: "walkSchemaCalls (Suc (Suc (Suc (Suc 0)))) plain_env ?root ?em0 (GenerateProperties ?root) ?em3"
    by (rule walkSchemaCalls.typeModel[OF n0, where ?em2.0 = ?em2 and ?em3.0 = ?em3])
       (simp_all add: out_def getProp_def foo_store_def schemaAt_def)
  have a: "additionalPropertiesPart (emit (Suc (Suc (Suc 0))) plain_env) (Suc (Suc (Suc 0))) plain_env ?root ?em3 = Returned ?em3"
    by (simp add: additionalPropertiesPart_def getProp_def foo_store_def schemaAt_def)
  let ?em4 = "\<lparr>objects = foo_store,
        written = [Start, OutputComments ?root, StartInterfaceNest (SchemaId ''#'' None),
                   OutputComments foo_property],
        currentSchema = Some ?root\<rparr>"
  let ?em5 = "\<lparr>objects = foo_store,
        written = [Start, OutputComments ?root, StartInterfaceNest (SchemaId ''#'' None),
                   OutputComments foo_property, OutputPropertyAttribute foo_property],
        currentSchema = Some ?root\<rparr>"
  have t: "truthyV (getProp (objects ?em3) (content ?root) ''properties'')"
    by (simp add: getProp_def foo_store_def schemaAt_def)
  have k: "keysOf (objects ?em3) (getProp (objects ?em3) (content ?root) ''properties'')
             = [] @ ''a'' # []"
    by (simp add: getProp_def keysOf_def foo_store_def schemaAt_def)
  have f: "forEach (propertyStep (emit (Suc (Suc (Suc 0))) plain_env) (Suc (Suc (Suc 0))) plain_env ?root) [] ?em3 = Returned ?em3"
    by simp
  have o1: "out (OutputComments foo_property) ?em3 = Returned ?em4"
    by (simp add: out_def)
  have o2: "out (OutputPropertyAttribute foo_property) ?em4 = Returned ?em5"
    by (simp add: out_def)
  have o3: "out (OutputPropertyName foo_property ''a''
                  (getProp (objects ?em5) (content ?root) ''required'')) ?em5 = Returned ?em6"
    by (simp add: out_def getProp_def foo_store_def schemaAt_def)
  have c1: "calls (Suc (Suc (Suc 0))) plain_env (GenerateProperties ?root) ?em3 (GenerateTypeProperty foo_property True) ?em6"
    by (rule calls.properties_property[OF a t k f n1 o1 o2 o3])
  have c2: "calls (Suc (Suc 0)) plain_env (GenerateTypeProperty foo_property True) ?em6
              (GenerateType foo_property True True) ?em6"
    by (rule calls.typeProperty_type)
       (simp_all add: getProp_def hasKey_def foo_store_def foo_property_def)
  have c3: "calls (Suc 0) plain_env (GenerateType foo_property True True) ?em6
              (GenerateTypeName foo_property (VStr ''foo'') True True) ?em6"
    by (rule calls.type_name) (simp add: getProp_def foo_store_def foo_property_def)
  have r: "reaches plain_env (Suc (Suc (Suc (Suc 0)))) (GenerateProperties ?root) ?em3 (Suc 0)
             (GenerateTypeName foo_property (VStr ''foo'') True True) ?em6"
    by (rule reaches_call[OF c1], rule reaches_call[OF c2], rule reaches_call[OF c3],
        rule reaches_here)
  show ?thesis
    by (rule generateReaches.intros[OF w _ c0 r]) simp
qed

text \<open>
  Claim C9.  Let the run of \<open>generate\<close> come to a call of \<open>generateTypeName\<close> for a type
  name \<open>t\<close> that \<open>toTSType\<close> does not know and that is neither \<open>object\<close> nor \<open>array\<close>:
  from any schema of the namespace map, through any calls of \<open>generateProperties\<close>,
  \<open>generateTypeProperty\<close>, \<open>generateArrayedType\<close>, \<open>generateArrayTypeProperty\<close>,
  \<open>generateType\<close> and \<open>generateTypeName\<close>.  Then \<open>generate\<close> ends with the error
  \<open>unknown type: t\<close>; it returns no calls of the convertor.
\<close>

theorem unknown_type_is_fatal:
  assumes "generateReaches n ev namespaces st (Suc m)
             (GenerateTypeName schema (VStr t) terminate outputOptional) em"
    and "toTSType ev t (objects em) (content schema) = None"
    and "t \<noteq> ''object''" and "t \<noteq> ''array''"
  shows "generate n ev namespaces st = Raised (Error (''unknown type: '' @ t))"
  using assms(1)
proof (cases rule: generateReaches.cases)
  case (generateReaches before s after em0 t0 em1)
  have "emit (Suc m) ev (GenerateTypeName schema (VStr t) terminate outputOptional) em
          = Raised (Error (''unknown type: '' @ t))"
    using assms(2-4) by (simp add: generateTypeName_def)
  then have "emit n ev t0 em1 = Raised (Error (''unknown type: '' @ t))"
    using generateReaches(4) reaches_raises by blast
  then have "walkSchema n ev s em0 = Raised (Error (''unknown type: '' @ t))"
    using generateReaches(3) walkSchemaCalls_raises by blast
  then have "walkStep n ev (WalkSchema s) em0 = Raised (Error (''unknown type: '' @ t))"
    by (simp add: walkStep_def)
  then have "forEach (walkStep n ev) (before @ WalkSchema s # after)
               \<lparr>objects = st, written = [Start], currentSchema = None\<rparr>
               = Raised (Error (''unknown type: '' @ t))"
    by (rule forEach_raises[OF generateReaches(2)])
  then show ?thesis
    using generateReaches by (simp add: generate_def walkMap_def out_def bind_def)
qed


text \<open>The run for the schema \<open>{type: 'object', properties: {a: {type: 'foo'}}}\<close>.\<close>

theorem unknown_type_is_fatal_witness:
  "generateReaches (Suc (Suc (Suc (Suc 0)))) plain_env [(''Root'', Node (Some (schemaAt (VRef 2))) [])] foo_store (Suc 0)
     (GenerateTypeName foo_property (VStr ''foo'') True True)
     \<lparr>objects = foo_store,
        written = [Start, OutputComments (schemaAt (VRef 2)), StartInterfaceNest (SchemaId ''#'' None),
                   OutputComments foo_property, OutputPropertyAttribute foo_property,
                   OutputPropertyName foo_property ''a'' VUndefined],
        currentSchema = Some (schemaAt (VRef 2))\<rparr>
   \<and> toTSType plain_env ''foo'' foo_store (VRef 0) = None
   \<and> generate (Suc (Suc (Suc (Suc 0)))) plain_env [(''Root'', Node (Some (schemaAt (VRef 2))) [])] foo_store
       = Raised (Error ''unknown type: foo'')"
proof -
  let ?em6 = "\<lparr>objects = foo_store,
        written = [Start, OutputComments (schemaAt (VRef 2)), StartInterfaceNest (SchemaId ''#'' None),
                   OutputComments foo_property, OutputPropertyAttribute foo_property,
                   OutputPropertyName foo_property ''a'' VUndefined],
        currentSchema = Some (schemaAt (VRef 2))\<rparr>"
  have u: "toTSType plain_env ''foo'' (objects ?em6) (content foo_property) = None"
    by (simp add: plain_env_def)
  from unknown_type_is_fatal [OF foo_run_reaches u] show ?thesis
    using foo_run_reaches u by (simp add: foo_property_def)
qed

section \<open>A node in normal form is not changed\<close>























lemma keepsResult_elim: "keepsResult a m em \<Longrightarrow> m = Returned em1 \<Longrightarrow> keepsNode a em em1"
  by (simp add: keepsResult_def)






































end
